theory Spec2Isabelle
  imports Main "HOL-Library.Char_ord" "HOL-Library.List_Lexorder" "HOL-Library.Product_Lexorder"
    "HOL-Library.Multiset"
begin

section \<open>JavaScript values and string helpers\<close>

text \<open>
  A raw property of a GeoJSON feature is either absent (\<open>undefined\<close>) or a string.
  Strings are byte lists; \<open>length\<close> stands for JavaScript's \<open>.length\<close>.
\<close>

datatype jsval = Undefined | Str string

text \<open>Interpolation inside a template literal: \<^verbatim>\<open>`${v}`\<close>.\<close>

fun template :: "jsval \<Rightarrow> string" where
  "template Undefined = ''undefined''"
| "template (Str s) = s"

text \<open>\<^verbatim>\<open>s.slice(-2)\<close>: the last two characters, or all of \<open>s\<close> when it is shorter.\<close>

definition slice_last2 :: "string \<Rightarrow> string" where
  "slice_last2 s = drop (length s - 2) s"

text \<open>
  \<^verbatim>\<open>feature.geometry\<close>: absent, \<^verbatim>\<open>null\<close> or a geometry object.
\<close>

datatype 'j jsgeo = GUndefined | GNull | GObject 'j

text \<open>
  The case mappings \<^verbatim>\<open>toLowerCase()\<close> of JavaScript and \<^verbatim>\<open>lower()\<close> of the database
  are parameters of the search (fields of \<open>runtime\<close> below). \<open>ascii_lower\<close> is the
  mapping both have on ASCII text; it serves as an instance.
\<close>

definition ascii_lower_char :: "char \<Rightarrow> char" where
  "ascii_lower_char c =
     (case map_of (zip ''ABCDEFGHIJKLMNOPQRSTUVWXYZ'' ''abcdefghijklmnopqrstuvwxyz'') c of
        None \<Rightarrow> c
      | Some d \<Rightarrow> d)"

definition ascii_lower :: "string \<Rightarrow> string" where
  "ascii_lower s = map ascii_lower_char s"

text \<open>Whatever a handler or helper throws.\<close>

datatype err = TypeError | QueryError | SupabaseError

section \<open>Code deriver\<close>

text \<open>The property bag \<^verbatim>\<open>feature.properties\<close>; its keys vary with the level of the file.\<close>

record props =
  kd_propinsi :: jsval
  nm_propinsi :: jsval
  kd_dati2 :: jsval
  nm_dati2 :: jsval
  kd_kecamatan :: jsval
  nm_kecamatan :: jsval
  kd_kelurahan :: jsval
  nm_kelurahan :: jsval

text \<open>
  \<^verbatim>\<open>transformProperties(feature, level)\<close>, the same in both server files. The first
  argument is \<^verbatim>\<open>feature.properties\<close> (\<open>None\<close> when the feature has none: reading a
  key of it raises a TypeError, as does \<^verbatim>\<open>.slice\<close> on an absent \<^verbatim>\<open>kd_kecamatan\<close>).
  The result is the pair \<^verbatim>\<open>{ kode, nama }\<close>.
\<close>

definition transformProperties :: "props option \<Rightarrow> int \<Rightarrow> err + (jsval \<times> jsval)" where
  "transformProperties fp lvl =
     (if lvl = 1 then
        (case fp of None \<Rightarrow> Inl TypeError
         | Some p \<Rightarrow> Inr (kd_propinsi p, nm_propinsi p))
      else if lvl = 2 then
        (case fp of None \<Rightarrow> Inl TypeError
         | Some p \<Rightarrow>
             Inr (Str (template (kd_propinsi p) @ ''.'' @ template (kd_dati2 p)), nm_dati2 p))
      else if lvl = 3 then
        (case fp of None \<Rightarrow> Inl TypeError
         | Some p \<Rightarrow>
             (case kd_kecamatan p of Undefined \<Rightarrow> Inl TypeError
              | Str kec \<Rightarrow>
                  (let kecCode = slice_last2 kec in
                   Inr (Str (template (kd_propinsi p) @ ''.'' @ template (kd_dati2 p) @ ''.''
                             @ kecCode),
                        nm_kecamatan p))))
      else if lvl = 4 then
        (case fp of None \<Rightarrow> Inl TypeError
         | Some p \<Rightarrow>
             (case kd_kecamatan p of Undefined \<Rightarrow> Inl TypeError
              | Str kec \<Rightarrow>
                  (let kecCode = slice_last2 kec;
                       kelCode = ''2'' @ template (kd_kelurahan p) in
                   Inr (Str (template (kd_propinsi p) @ ''.'' @ template (kd_dati2 p) @ ''.''
                             @ kecCode @ ''.'' @ kelCode),
                        nm_kelurahan p))))
      else Inr (Str '''', Str ''''))"

section \<open>The table m_wilayah_poligon and its SQL statements\<close>

text \<open>
  One row of the table. The name is nullable; the geometry column has the type \<open>'g\<close>
  (an option type where NULL geometries are written); timestamps are natural numbers. The
  table is the list of its rows; the primary key makes \<open>kode_wilayah_kemendagri\<close>
  distinct over it. The order of the list is not observable: a SELECT without ORDER BY
  yields a multiset of rows.
\<close>

record 'g row =
  kode_wilayah_kemendagri :: string
  nama_wilayah_kemendagri :: "string option"
  level :: int
  geometry :: 'g
  created_at :: nat
  updated_at :: nat

type_synonym 'g store = "'g row list"

text \<open>
  A value bound to a \<^verbatim>\<open>VARCHAR(255)\<close> column: longer text is an error, unless the
  excess is blank, which PostgreSQL cuts off.
\<close>

definition varchar255 :: "string \<Rightarrow> string option" where
  "varchar255 s =
     (if length s \<le> 255 then Some s
      else if list_all (\<lambda>c. c = CHR '' '') (drop 255 s) then Some (take 255 s)
      else None)"

text \<open>
  \<^verbatim>\<open>INSERT ... ON CONFLICT (kode_wilayah_kemendagri) DO UPDATE SET nama_wilayah_kemendagri,
  geometry, updated_at\<close> on a table whose key column holds \<open>k\<close> at most once: the row
  with the key is rewritten, or a new row is added with both timestamps at \<open>t\<close>.
\<close>

fun upsert_row :: "string \<Rightarrow> string option \<Rightarrow> int \<Rightarrow> 'g \<Rightarrow> nat \<Rightarrow> 'g store \<Rightarrow> 'g store" where
  "upsert_row k n l g t [] =
     [\<lparr>kode_wilayah_kemendagri = k, nama_wilayah_kemendagri = n, level = l, geometry = g,
       created_at = t, updated_at = t\<rparr>]"
| "upsert_row k n l g t (r # rs) =
     (if kode_wilayah_kemendagri r = k
      then r\<lparr>nama_wilayah_kemendagri := n, geometry := g, updated_at := t\<rparr> # rs
      else r # upsert_row k n l g t rs)"

text \<open>
  A JSON document handed to \<^verbatim>\<open>ST_GeomFromGeoJSON\<close>: the document \<^verbatim>\<open>null\<close> or a
  geometry object.
\<close>

datatype 'j json_doc = JsonNull | JsonObject 'j

text \<open>
  The \<^verbatim>\<open>VALUES\<close> row of the upsert statement, as stored: key, name and geometry, from
  the statement's parameters (\<open>None\<close> is SQL NULL). \<open>st\<close> is
  \<^verbatim>\<open>ST_Multi(ST_SimplifyPreserveTopology(ST_Force2D(ST_GeomFromGeoJSON(_)), 0.0001))\<close>
  on a geometry object, \<open>None\<close> where PostGIS rejects it. A NULL document gives a NULL
  geometry; the document \<^verbatim>\<open>null\<close> is no GeoJSON and is rejected. A NULL key is
  refused by the primary key, a NULL name is accepted. The result \<open>None\<close> is a failed
  statement.
\<close>

definition sql_values ::
  "('j \<Rightarrow> 'g option) \<Rightarrow> string option \<Rightarrow> string option \<Rightarrow> 'j json_doc option
     \<Rightarrow> (string \<times> string option \<times> 'g option) option" where
  "sql_values st p_kode p_nama p_geojson =
     (case (case p_geojson of None \<Rightarrow> Some None
            | Some JsonNull \<Rightarrow> None
            | Some (JsonObject j) \<Rightarrow> (case st j of None \<Rightarrow> None | Some g \<Rightarrow> Some (Some g)))
      of None \<Rightarrow> None
      | Some g \<Rightarrow>
          (case p_kode of None \<Rightarrow> None
           | Some k \<Rightarrow>
               (case varchar255 k of None \<Rightarrow> None
                | Some k' \<Rightarrow>
                    (case p_nama of
                       None \<Rightarrow> Some (k', None, g)
                     | Some n \<Rightarrow>
                         (case varchar255 n of None \<Rightarrow> None
                          | Some n' \<Rightarrow> Some (k', Some n', g))))))"

text \<open>
  The statement of \<^verbatim>\<open>upsert_wilayah\<close> (init_db.sql) and of the direct branch of
  \<^verbatim>\<open>upsertFeature\<close>, which are the same text; \<open>t\<close> is \<^verbatim>\<open>NOW()\<close>.
\<close>

definition sql_upsert ::
  "('j \<Rightarrow> 'g option) \<Rightarrow> nat \<Rightarrow> string option \<Rightarrow> string option \<Rightarrow> int \<Rightarrow> 'j json_doc option
     \<Rightarrow> 'g option store \<Rightarrow> 'g option store option" where
  "sql_upsert st t p_kode p_nama p_level p_geojson db =
     (case sql_values st p_kode p_nama p_geojson of None \<Rightarrow> None
      | Some (k, n, g) \<Rightarrow> Some (upsert_row k n p_level g t db))"

text \<open>
  SQL \<^verbatim>\<open>LIKE\<close>: \<open>like s p\<close> is \<^verbatim>\<open>s LIKE p\<close>. \<open>%\<close> stands for any text, \<open>_\<close> for any one
  character, and a backslash makes the next pattern character literal. Every pattern the
  servers build ends in \<open>%\<close>, so a pattern never ends in a lone backslash.
\<close>

fun like :: "string \<Rightarrow> string \<Rightarrow> bool" where
  "like s [] = (s = [])"
| "like s (p # ps) =
     (if p = CHR ''%'' then
        (like s ps \<or> (case s of [] \<Rightarrow> False | c # cs \<Rightarrow> like cs (p # ps)))
      else if p = CHR ''_'' then
        (case s of [] \<Rightarrow> False | c # cs \<Rightarrow> like cs ps)
      else if p = CHR 0x5C then
        (case ps of [] \<Rightarrow> False
         | q # qs \<Rightarrow> (case s of [] \<Rightarrow> False | c # cs \<Rightarrow> c = q \<and> like cs qs))
      else (case s of [] \<Rightarrow> False | c # cs \<Rightarrow> c = p \<and> like cs ps))"

text \<open>
  The three columns the map queries select:
  \<^verbatim>\<open>kode_wilayah_kemendagri as id, nama_wilayah_kemendagri as name, ST_AsGeoJSON(geometry) as geom\<close>.
\<close>

record 'g geo_row =
  row_id :: string
  row_name :: "string option"
  row_geom :: 'g

text \<open>
  \<^verbatim>\<open>SELECT ... FROM m_wilayah_poligon WHERE <cond>\<close>, without ORDER BY: the rows that
  satisfy the condition, in no particular order.
\<close>

definition select_geo :: "('g row \<Rightarrow> bool) \<Rightarrow> 'g store \<Rightarrow> 'g geo_row multiset" where
  "select_geo cond db =
     image_mset
       (\<lambda>r. \<lparr>row_id = kode_wilayah_kemendagri r, row_name = nama_wilayah_kemendagri r,
             row_geom = geometry r\<rparr>)
       (filter_mset cond (mset db))"

text \<open>\<^verbatim>\<open>... WHERE level = $1 AND kode_wilayah_kemendagri LIKE $2\<close>\<close>

definition select_level_like :: "'g store \<Rightarrow> int \<Rightarrow> string \<Rightarrow> 'g geo_row multiset" where
  "select_level_like db lvl pat =
     select_geo (\<lambda>r. level r = lvl \<and> like (kode_wilayah_kemendagri r) pat) db"

text \<open>\<^verbatim>\<open>... WHERE level = <lvl> AND kode_wilayah_kemendagri = $1\<close>\<close>

definition select_level_eq :: "'g store \<Rightarrow> int \<Rightarrow> string \<Rightarrow> 'g geo_row multiset" where
  "select_level_eq db lvl c =
     select_geo (\<lambda>r. level r = lvl \<and> kode_wilayah_kemendagri r = c) db"

text \<open>
  \<^verbatim>\<open>get_wilayah_by_level(p_level, p_parent_code)\<close> of init_db.sql:
  \<^verbatim>\<open>WHERE level = p_level AND (p_parent_code IS NULL OR kode_wilayah_kemendagri LIKE p_parent_code || '%')\<close>.
\<close>

definition get_wilayah_by_level :: "'g store \<Rightarrow> int \<Rightarrow> string option \<Rightarrow> 'g geo_row multiset" where
  "get_wilayah_by_level db p_level p_parent_code =
     select_geo
       (\<lambda>r. level r = p_level \<and>
            (case p_parent_code of None \<Rightarrow> True
             | Some c \<Rightarrow> like (kode_wilayah_kemendagri r) (c @ ''%'')))
       db"

text \<open>A search hit: \<^verbatim>\<open>id, name, level\<close>.\<close>

record hit =
  hit_id :: string
  hit_name :: string
  hit_level :: int

text \<open>
  \<^verbatim>\<open>SELECT ... WHERE <cond on the name> ORDER BY level ASC, nama_wilayah_kemendagri ASC LIMIT 10\<close>.
  A row whose name is NULL satisfies no condition on the name. Names are compared
  character by character; rows equal in level and name come in the order of the table,
  which SQL leaves open.
\<close>

definition select_search :: "(string \<Rightarrow> bool) \<Rightarrow> 'g store \<Rightarrow> hit list" where
  "select_search cond db =
     take 10
       (sort_key (\<lambda>h. (hit_level h, hit_name h))
          (List.map_filter
             (\<lambda>r. case nama_wilayah_kemendagri r of None \<Rightarrow> None
                  | Some n \<Rightarrow>
                      if cond n
                      then Some \<lparr>hit_id = kode_wilayah_kemendagri r, hit_name = n,
                                 hit_level = level r\<rparr>
                      else None)
             db))"

text \<open>\<^verbatim>\<open>WHERE lower(nama_wilayah_kemendagri) LIKE $1\<close>, the direct search; \<open>lw\<close> is \<^verbatim>\<open>lower\<close>.\<close>

definition search_lower_like :: "(string \<Rightarrow> string) \<Rightarrow> 'g store \<Rightarrow> string \<Rightarrow> hit list" where
  "search_lower_like lw db pat = select_search (\<lambda>n. like (lw n) pat) db"

text \<open>
  \<^verbatim>\<open>search_wilayah(p_query)\<close> of init_db.sql:
  \<^verbatim>\<open>WHERE lower(nama_wilayah_kemendagri) LIKE '%' || lower(p_query) || '%'\<close>.
\<close>

definition search_wilayah :: "(string \<Rightarrow> string) \<Rightarrow> 'g store \<Rightarrow> string \<Rightarrow> hit list" where
  "search_wilayah lw db p_query =
     select_search (\<lambda>n. like (lw n) (''%'' @ lw p_query @ ''%'')) db"

text \<open>
  The fallback select of the gateway search:
  \<^verbatim>\<open>.ilike('nama_wilayah_kemendagri', pat).order(level).order(nama).limit(10)\<close>;
  ILIKE compares the lowered name with the lowered pattern.
\<close>

definition search_ilike :: "(string \<Rightarrow> string) \<Rightarrow> 'g store \<Rightarrow> string \<Rightarrow> hit list" where
  "search_ilike lw db pat = select_search (\<lambda>n. like (lw n) (lw pat)) db"

section \<open>Store access of the two providers\<close>

datatype provider = POSTGRES | SUPABASE

text \<open>One request to the store, as a read handler issues it.\<close>

datatype store_call =
    Query_level_like int string
  | Query_level_eq int string
  | Rpc_get_wilayah_by_level int string
  | Query_search string
  | Rpc_search_wilayah string
  | Select_ilike string

text \<open>
  The process environment: \<^verbatim>\<open>process.env.DB_PROVIDER\<close> (anything but
  \<^verbatim>\<open>'SUPABASE'\<close> is the direct connection), whether the \<^verbatim>\<open>supabaseAdmin\<close> client
  was created, and which requests the store fails to answer.
\<close>

record env =
  DB_PROVIDER :: provider
  supabaseAdmin :: bool
  unavailable :: "store_call \<Rightarrow> bool"

text \<open>
  What a search needs beyond that: the case mapping of JavaScript strings and the one of
  the database.
\<close>

record runtime = env +
  toLowerCase :: "string \<Rightarrow> string"
  sql_lower :: "string \<Rightarrow> string"

text \<open>
  The parameters of the direct statement, \<^verbatim>\<open>[kode, nama, level, geometryStr]\<close>: an
  \<open>undefined\<close> value is bound as NULL, and \<^verbatim>\<open>JSON.stringify\<close> turns an absent geometry
  into \<open>undefined\<close>, \<open>null\<close> into the document \<^verbatim>\<open>null\<close>.
\<close>

definition pool_param :: "jsval \<Rightarrow> string option" where
  "pool_param v = (case v of Undefined \<Rightarrow> None | Str s \<Rightarrow> Some s)"

definition stringify :: "'j jsgeo \<Rightarrow> 'j json_doc option" where
  "stringify g =
     (case g of GUndefined \<Rightarrow> None | GNull \<Rightarrow> Some JsonNull | GObject j \<Rightarrow> Some (JsonObject j))"

text \<open>
  The arguments of the RPC \<^verbatim>\<open>upsert_wilayah\<close>, sent as the JSON object
  \<^verbatim>\<open>{ p_kode, p_nama, p_level, p_geojson }\<close>: a key whose value is \<open>undefined\<close> is left
  out of the body, and then no function of init_db.sql has the arguments of the call
  (\<open>None\<close>: the RPC reports an error); \<open>null\<close> arrives as SQL NULL.
\<close>

definition rpc_args :: "jsval \<Rightarrow> jsval \<Rightarrow> 'j jsgeo \<Rightarrow> (string \<times> string \<times> 'j json_doc option) option" where
  "rpc_args kode nama g =
     (case kode of Undefined \<Rightarrow> None
      | Str k \<Rightarrow>
          (case nama of Undefined \<Rightarrow> None
           | Str n \<Rightarrow>
               (case g of GUndefined \<Rightarrow> None
                | GNull \<Rightarrow> Some (k, n, None)
                | GObject j \<Rightarrow> Some (k, n, Some (JsonObject j)))))"

text \<open>
  \<^verbatim>\<open>upsertFeature(kode, nama, level, geometryObject)\<close> of the provider-aware server. The
  gateway branch throws when the client is missing or the RPC reports an error; the
  direct branch throws when the statement fails. The direct branch is also the statement
  the direct-only server runs in its loop.
\<close>

definition upsertFeature ::
  "'x env_scheme \<Rightarrow> ('j \<Rightarrow> 'g option) \<Rightarrow> nat \<Rightarrow> jsval \<Rightarrow> jsval \<Rightarrow> int \<Rightarrow> 'j jsgeo \<Rightarrow> 'g option store
     \<Rightarrow> err + 'g option store" where
  "upsertFeature e st t kode nama lvl geometryObject db =
     (case DB_PROVIDER e of
        SUPABASE \<Rightarrow>
          (if \<not> supabaseAdmin e then Inl SupabaseError
           else (case rpc_args kode nama geometryObject of
                   None \<Rightarrow> Inl SupabaseError
                 | Some (p_kode, p_nama, p_geojson) \<Rightarrow>
                     (case sql_upsert st t (Some p_kode) (Some p_nama) lvl p_geojson db of
                        None \<Rightarrow> Inl SupabaseError
                      | Some db' \<Rightarrow> Inr db')))
      | POSTGRES \<Rightarrow>
          (case sql_upsert st t (pool_param kode) (pool_param nama) lvl
                  (stringify geometryObject) db of
             None \<Rightarrow> Inl QueryError
           | Some db' \<Rightarrow> Inr db'))"

text \<open>
  A computation that issues store requests and may throw: the requests issued, in
  order, and the value or the error.
\<close>

type_synonym 'a io = "store_call list \<times> (err + 'a)"

definition return_io :: "'a \<Rightarrow> 'a io" where
  "return_io a = ([], Inr a)"

text \<open>\<^verbatim>\<open>const a = await m; ...\<close>: an error of \<open>m\<close> skips the rest.\<close>

definition await :: "'a io \<Rightarrow> ('a \<Rightarrow> 'b io) \<Rightarrow> 'b io" where
  "await m f =
     (case m of
        (tr, Inl x) \<Rightarrow> (tr, Inl x)
      | (tr, Inr a) \<Rightarrow> (case f a of (tr', r) \<Rightarrow> (tr @ tr', r)))"

text \<open>
  \<^verbatim>\<open>fetchGeoData(targetLevel, codePrefix)\<close> of the provider-aware server. The gateway
  branch logs an RPC error and returns no rows; calling \<^verbatim>\<open>.rpc\<close> on a missing client
  is a TypeError. The direct branch lets the failure of \<^verbatim>\<open>pool.query\<close> propagate.
\<close>

definition fetchGeoData :: "'x env_scheme \<Rightarrow> 'g store \<Rightarrow> int \<Rightarrow> string \<Rightarrow> ('g geo_row multiset) io" where
  "fetchGeoData e db targetLevel codePrefix =
     (case DB_PROVIDER e of
        SUPABASE \<Rightarrow>
          (if \<not> supabaseAdmin e then ([], Inl TypeError)
           else if unavailable e (Rpc_get_wilayah_by_level targetLevel codePrefix)
           then ([Rpc_get_wilayah_by_level targetLevel codePrefix], Inr {#})
           else ([Rpc_get_wilayah_by_level targetLevel codePrefix],
                 Inr (get_wilayah_by_level db targetLevel (Some codePrefix))))
      | POSTGRES \<Rightarrow>
          (if unavailable e (Query_level_like targetLevel (codePrefix @ ''%''))
           then ([Query_level_like targetLevel (codePrefix @ ''%'')], Inl QueryError)
           else ([Query_level_like targetLevel (codePrefix @ ''%'')],
                 Inr (select_level_like db targetLevel (codePrefix @ ''%'')))))"

text \<open>The two statement shapes of the direct-only server, through \<^verbatim>\<open>pool.query\<close>.\<close>

definition pool_query_eq :: "'x env_scheme \<Rightarrow> 'g store \<Rightarrow> int \<Rightarrow> string \<Rightarrow> ('g geo_row multiset) io" where
  "pool_query_eq e db lvl c =
     (if unavailable e (Query_level_eq lvl c) then ([Query_level_eq lvl c], Inl QueryError)
      else ([Query_level_eq lvl c], Inr (select_level_eq db lvl c)))"

definition pool_query_like :: "'x env_scheme \<Rightarrow> 'g store \<Rightarrow> int \<Rightarrow> string \<Rightarrow> ('g geo_row multiset) io" where
  "pool_query_like e db lvl pat =
     (if unavailable e (Query_level_like lvl pat) then ([Query_level_like lvl pat], Inl QueryError)
      else ([Query_level_like lvl pat], Inr (select_level_like db lvl pat)))"

section \<open>Ingestion loop\<close>

text \<open>
  The feature loop of \<^verbatim>\<open>/api/db/sync\<close> for one file of level \<open>lvl\<close>. A feature is
  its property bag and its geometry; \<open>now n\<close> is the clock at the statement that follows
  \<open>n\<close> processed features. Any throw leaves the loop (the handler answers 500) with the
  rows written so far in place.
\<close>

fun ingest ::
  "'x env_scheme \<Rightarrow> ('j \<Rightarrow> 'g option) \<Rightarrow> (nat \<Rightarrow> nat) \<Rightarrow> int \<Rightarrow> (props option \<times> 'j jsgeo) list
     \<Rightarrow> nat \<times> 'g option store \<Rightarrow> (err + nat) \<times> 'g option store" where
  "ingest e st now lvl [] (totalProcessed, db) = (Inr totalProcessed, db)"
| "ingest e st now lvl (feature # features) (totalProcessed, db) =
     (case transformProperties (fst feature) lvl of
        Inl x \<Rightarrow> (Inl x, db)
      | Inr (kode, nama) \<Rightarrow>
          (case upsertFeature e st (now totalProcessed) kode nama lvl (snd feature) db of
             Inl x \<Rightarrow> (Inl x, db)
           | Inr db' \<Rightarrow> ingest e st now lvl features (Suc totalProcessed, db')))"

section \<open>Hierarchy query\<close>

text \<open>
  A feature of a FeatureCollection: \<^verbatim>\<open>properties: { name, id }\<close> and the geometry. The
  features of a collection come in the order of the rows, so they are a multiset too.
\<close>

record 'g geo_feature =
  feat_name :: "string option"
  feat_id :: string
  feat_geometry :: 'g

definition toFeatureCollection :: "'g geo_row multiset \<Rightarrow> 'g geo_feature multiset" where
  "toFeatureCollection rows =
     image_mset
       (\<lambda>r. \<lparr>feat_name = row_name r, feat_id = row_id r, feat_geometry = row_geom r\<rparr>) rows"

text \<open>The result object; \<open>None\<close> is \<^verbatim>\<open>{ data: null }\<close>.\<close>

record 'g result_bundle =
  provinsi :: "'g geo_feature multiset option"
  kabupaten :: "'g geo_feature multiset option"
  kecamatan :: "'g geo_feature multiset option"
  kelurahan :: "'g geo_feature multiset option"

definition empty_bundle :: "'g result_bundle" where
  "empty_bundle = \<lparr>provinsi = None, kabupaten = None, kecamatan = None, kelurahan = None\<rparr>"

text \<open>\<^verbatim>\<open>if (rows.length > 0) slot.data = toFeatureCollection(rows)\<close>\<close>

definition slot :: "'g geo_row multiset \<Rightarrow> 'g geo_feature multiset option" where
  "slot rows = (if size rows > 0 then Some (toFeatureCollection rows) else None)"

datatype 'a response = Status400 | Status500 | Json 'a

text \<open>\<^verbatim>\<open>try { ...; res.json(result) } catch (err) { res.status(500)... }\<close>\<close>

definition respond :: "'a io \<Rightarrow> store_call list \<times> 'a response" where
  "respond m = (case m of (tr, Inl x) \<Rightarrow> (tr, Status500) | (tr, Inr a) \<Rightarrow> (tr, Json a))"

text \<open>
  \<^verbatim>\<open>GET /api/db/geojson\<close> of the provider-aware server; the argument is
  \<^verbatim>\<open>req.query.code\<close>. The result is the list of store requests issued and the response.
\<close>

definition api_db_geojson ::
  "'x env_scheme \<Rightarrow> 'g store \<Rightarrow> string option \<Rightarrow> store_call list \<times> 'g result_bundle response" where
  "api_db_geojson e db q =
     (case q of None \<Rightarrow> ([], Status400)
      | Some code \<Rightarrow>
          if code = [] then ([], Status400)
          else
            (let codeLen = length code in
             respond
               (if codeLen = 2 then
                  await (fetchGeoData e db 1 code) (\<lambda>provRows.
                  await (fetchGeoData e db 2 code) (\<lambda>kabRows.
                  return_io (empty_bundle\<lparr>provinsi := slot provRows, kabupaten := slot kabRows\<rparr>)))
                else if codeLen = 5 then
                  await (fetchGeoData e db 2 code) (\<lambda>kabRows.
                  await (fetchGeoData e db 3 code) (\<lambda>kecRows.
                  await (fetchGeoData e db 4 code) (\<lambda>kelRows.
                  return_io (empty_bundle\<lparr>kabupaten := slot kabRows, kecamatan := slot kecRows,
                                          kelurahan := slot kelRows\<rparr>))))
                else if codeLen = 8 then
                  await (fetchGeoData e db 2 (take 5 code)) (\<lambda>kabRows.
                  await (fetchGeoData e db 3 code) (\<lambda>kecRows.
                  await (fetchGeoData e db 4 code) (\<lambda>kelRows.
                  return_io (empty_bundle\<lparr>kabupaten := slot kabRows, kecamatan := slot kecRows,
                                          kelurahan := slot kelRows\<rparr>))))
                else if codeLen \<ge> 13 then
                  await (fetchGeoData e db 3 (take 8 code)) (\<lambda>kecRows.
                  await (fetchGeoData e db 4 code) (\<lambda>kelRows.
                  return_io (empty_bundle\<lparr>kecamatan := slot kecRows, kelurahan := slot kelRows\<rparr>)))
                else return_io empty_bundle)))"

text \<open>
  \<^verbatim>\<open>GET /api/db/geojson\<close> of the direct-only server: the region itself and its parent by
  \<^verbatim>\<open>=\<close>, the children by \<^verbatim>\<open>LIKE code || '.%'\<close>.
\<close>

definition api_db_geojson_direct ::
  "'x env_scheme \<Rightarrow> 'g store \<Rightarrow> string option \<Rightarrow> store_call list \<times> 'g result_bundle response" where
  "api_db_geojson_direct e db q =
     (case q of None \<Rightarrow> ([], Status400)
      | Some code \<Rightarrow>
          if code = [] then ([], Status400)
          else
            (let codeLen = length code in
             respond
               (if codeLen = 2 then
                  await (pool_query_eq e db 1 code) (\<lambda>provRes.
                  await (pool_query_like e db 2 (code @ ''.%'')) (\<lambda>kabRes.
                  return_io (empty_bundle\<lparr>provinsi := slot provRes, kabupaten := slot kabRes\<rparr>)))
                else if codeLen = 5 then
                  await (pool_query_eq e db 2 code) (\<lambda>kabRes.
                  await (pool_query_like e db 3 (code @ ''.%'')) (\<lambda>kecRes.
                  await (pool_query_like e db 4 (code @ ''.%'')) (\<lambda>kelRes.
                  return_io (empty_bundle\<lparr>kabupaten := slot kabRes, kecamatan := slot kecRes,
                                          kelurahan := slot kelRes\<rparr>))))
                else if codeLen = 8 then
                  await (pool_query_eq e db 2 (take 5 code)) (\<lambda>kabRes.
                  await (pool_query_eq e db 3 code) (\<lambda>kecRes.
                  await (pool_query_like e db 4 (code @ ''.%'')) (\<lambda>kelRes.
                  return_io (empty_bundle\<lparr>kabupaten := slot kabRes, kecamatan := slot kecRes,
                                          kelurahan := slot kelRes\<rparr>))))
                else if codeLen \<ge> 13 then
                  await (pool_query_eq e db 3 (take 8 code)) (\<lambda>kecRes.
                  await (pool_query_eq e db 4 code) (\<lambda>kelRes.
                  return_io (empty_bundle\<lparr>kecamatan := slot kecRes, kelurahan := slot kelRes\<rparr>)))
                else return_io empty_bundle)))"

section \<open>Search\<close>

text \<open>
  \<^verbatim>\<open>GET /api/search\<close> of the provider-aware server; the argument is \<^verbatim>\<open>req.query.q\<close>.
  The gateway branch falls back to a direct select when the RPC reports an error.
\<close>

definition api_search ::
  "runtime \<Rightarrow> 'g store \<Rightarrow> string option \<Rightarrow> store_call list \<times> hit list response" where
  "api_search e db q =
     (case q of None \<Rightarrow> ([], Json [])
      | Some query \<Rightarrow>
          if query = [] \<or> length query < 3 then ([], Json [])
          else
            respond
              (case DB_PROVIDER e of
                 SUPABASE \<Rightarrow>
                   (if \<not> supabaseAdmin e then ([], Inl TypeError)
                    else if unavailable e (Rpc_search_wilayah query) then
                      (if unavailable e (Select_ilike (''%'' @ query @ ''%''))
                       then ([Rpc_search_wilayah query, Select_ilike (''%'' @ query @ ''%'')],
                             Inl SupabaseError)
                       else ([Rpc_search_wilayah query, Select_ilike (''%'' @ query @ ''%'')],
                             Inr (search_ilike (sql_lower e) db (''%'' @ query @ ''%''))))
                    else ([Rpc_search_wilayah query], Inr (search_wilayah (sql_lower e) db query)))
               | POSTGRES \<Rightarrow>
                   (if unavailable e (Query_search (''%'' @ toLowerCase e query @ ''%''))
                    then ([Query_search (''%'' @ toLowerCase e query @ ''%'')], Inl QueryError)
                    else ([Query_search (''%'' @ toLowerCase e query @ ''%'')],
                          Inr (search_lower_like (sql_lower e) db (''%'' @ toLowerCase e query @ ''%''))))))"

text \<open>\<^verbatim>\<open>GET /api/search\<close> of the direct-only server.\<close>

definition api_search_direct ::
  "runtime \<Rightarrow> 'g store \<Rightarrow> string option \<Rightarrow> store_call list \<times> hit list response" where
  "api_search_direct e db q =
     (case q of None \<Rightarrow> ([], Json [])
      | Some query \<Rightarrow>
          if query = [] \<or> length query < 3 then ([], Json [])
          else
            respond
              (if unavailable e (Query_search (''%'' @ toLowerCase e query @ ''%''))
               then ([Query_search (''%'' @ toLowerCase e query @ ''%'')], Inl QueryError)
               else ([Query_search (''%'' @ toLowerCase e query @ ''%'')],
                     Inr (search_lower_like (sql_lower e) db (''%'' @ toLowerCase e query @ ''%'')))))"

section \<open>Notions used in the statements and proofs\<close>

text \<open>
  What a call of \<open>upsertFeature\<close> writes: key, name and geometry as stored, after the
  marshalling of its branch; \<open>None\<close> when the call throws.
\<close>

definition upsert_values ::
  "'x env_scheme \<Rightarrow> ('j \<Rightarrow> 'g option) \<Rightarrow> jsval \<Rightarrow> jsval \<Rightarrow> 'j jsgeo
     \<Rightarrow> (string \<times> string option \<times> 'g option) option" where
  "upsert_values e st kode nama geometryObject =
     (case DB_PROVIDER e of
        SUPABASE \<Rightarrow>
          (if \<not> supabaseAdmin e then None
           else (case rpc_args kode nama geometryObject of None \<Rightarrow> None
                 | Some (p_kode, p_nama, p_geojson) \<Rightarrow>
                     sql_values st (Some p_kode) (Some p_nama) p_geojson))
      | POSTGRES \<Rightarrow>
          sql_values st (pool_param kode) (pool_param nama) (stringify geometryObject))"

text \<open>
  What the feature loop writes for one feature of a file of level \<open>lvl\<close>; \<open>None\<close> when
  the deriver or the upsert throws on it.
\<close>

definition feature_values ::
  "'x env_scheme \<Rightarrow> ('j \<Rightarrow> 'g option) \<Rightarrow> int \<Rightarrow> props option \<times> 'j jsgeo
     \<Rightarrow> (string \<times> string option \<times> 'g option) option" where
  "feature_values e st lvl feature =
     (case transformProperties (fst feature) lvl of Inl x \<Rightarrow> None
      | Inr (kode, nama) \<Rightarrow> upsert_values e st kode nama (snd feature))"

text \<open>
  Replaying the writes of a batch: \<open>run_writes lvl now n ws db\<close> applies the value rows
  \<open>ws\<close> in order, the first at clock \<open>now n\<close>.
\<close>

fun run_writes ::
  "int \<Rightarrow> (nat \<Rightarrow> nat) \<Rightarrow> nat \<Rightarrow> (string \<times> string option \<times> 'g) list \<Rightarrow> 'g store
     \<Rightarrow> 'g store" where
  "run_writes lvl now n [] db = db"
| "run_writes lvl now n (w # ws) db =
     run_writes lvl now (Suc n) ws (upsert_row (fst w) (fst (snd w)) lvl (snd (snd w)) (now n) db)"

text \<open>A row without its \<open>updated_at\<close> column.\<close>

definition content :: "'g row \<Rightarrow> string \<times> string option \<times> int \<times> 'g \<times> nat" where
  "content r =
     (kode_wilayah_kemendagri r, nama_wilayah_kemendagri r, level r, geometry r, created_at r)"

section \<open>The code deriver on present codes\<close>

text \<open>
  C1. With the raw third-level code present, level 3 yields top code, \<open>.\<close>, second code,
  \<open>.\<close> and the last two characters of the third-level code, and level 4 yields the same
  three segments followed by \<open>.\<close> and the digit 2 in front of the fourth-level code. The
  codes are joined as a template literal joins them.
\<close>

theorem derive_level3_level4:
  assumes "kd_kecamatan p = Str rawThird"
  shows "transformProperties (Some p) 3 =
           Inr (Str (template (kd_propinsi p) @ ''.'' @ template (kd_dati2 p) @ ''.''
                     @ drop (length rawThird - 2) rawThird),
                nm_kecamatan p)
         \<and> transformProperties (Some p) 4 =
             Inr (Str (template (kd_propinsi p) @ ''.'' @ template (kd_dati2 p) @ ''.''
                       @ drop (length rawThird - 2) rawThird @ ''.''
                       @ ''2'' @ template (kd_kelurahan p)),
                  nm_kelurahan p)"
  using assms by (simp add: transformProperties_def slice_last2_def)

text \<open>
  The raw third-level codes 0105 and 05 give the same identifiers, and the raw
  fourth-level code 003 gives the segment 2003.
\<close>

theorem derive_level3_level4_witness:
  "transformProperties
     (Some \<lparr>kd_propinsi = Str ''11'', nm_propinsi = Str ''Aceh'', kd_dati2 = Str ''01'',
            nm_dati2 = Str ''Simeulue'', kd_kecamatan = Str ''0105'',
            nm_kecamatan = Str ''Teupah Barat'', kd_kelurahan = Str ''003'',
            nm_kelurahan = Str ''Salur''\<rparr>) 3
     = Inr (Str ''11.01.05'', Str ''Teupah Barat'')
   \<and> transformProperties
     (Some \<lparr>kd_propinsi = Str ''11'', nm_propinsi = Str ''Aceh'', kd_dati2 = Str ''01'',
            nm_dati2 = Str ''Simeulue'', kd_kecamatan = Str ''0105'',
            nm_kecamatan = Str ''Teupah Barat'', kd_kelurahan = Str ''003'',
            nm_kelurahan = Str ''Salur''\<rparr>) 4
     = Inr (Str ''11.01.05.2003'', Str ''Salur'')
   \<and> transformProperties
     (Some \<lparr>kd_propinsi = Str ''11'', nm_propinsi = Str ''Aceh'', kd_dati2 = Str ''01'',
            nm_dati2 = Str ''Simeulue'', kd_kecamatan = Str ''05'',
            nm_kecamatan = Str ''Teupah Barat'', kd_kelurahan = Str ''003'',
            nm_kelurahan = Str ''Salur''\<rparr>) 3
     = Inr (Str ''11.01.05'', Str ''Teupah Barat'')"
  using
    derive_level3_level4 [of "\<lparr>kd_propinsi = Str ''11'', nm_propinsi = Str ''Aceh'',
        kd_dati2 = Str ''01'', nm_dati2 = Str ''Simeulue'', kd_kecamatan = Str ''0105'',
        nm_kecamatan = Str ''Teupah Barat'', kd_kelurahan = Str ''003'',
        nm_kelurahan = Str ''Salur''\<rparr>" "''0105''"]
    derive_level3_level4 [of "\<lparr>kd_propinsi = Str ''11'', nm_propinsi = Str ''Aceh'',
        kd_dati2 = Str ''01'', nm_dati2 = Str ''Simeulue'', kd_kecamatan = Str ''05'',
        nm_kecamatan = Str ''Teupah Barat'', kd_kelurahan = Str ''003'',
        nm_kelurahan = Str ''Salur''\<rparr>" "''05''"]
  by simp

section \<open>LIKE on a literal prefix\<close>

lemma like_percent: "like s ''%''"
  by (induction s) simp_all

text \<open>
  For a text \<open>c\<close> without \<open>%\<close>, \<open>_\<close> and backslash, \<^verbatim>\<open>s LIKE c || '%'\<close> says that \<open>s\<close>
  starts with \<open>c\<close>.
\<close>

lemma like_literal_prefix:
  assumes "CHR ''%'' \<notin> set c" and "CHR ''_'' \<notin> set c" and "CHR 0x5C \<notin> set c"
  shows "like s (c @ ''%'') = (take (length c) s = c)"
  using assms
proof (induction c arbitrary: s)
  case Nil
  then show ?case using like_percent by simp
next
  case (Cons a c)
  then show ?case by (cases s) auto
qed

lemma select_level_like_literal:
  assumes "CHR ''%'' \<notin> set c" and "CHR ''_'' \<notin> set c" and "CHR 0x5C \<notin> set c"
  shows "select_level_like db lvl (c @ ''%'')
         = select_geo (\<lambda>r. level r = lvl \<and> take (length c) (kode_wilayah_kemendagri r) = c) db"
  using assms by (simp add: select_level_like_def like_literal_prefix)

section \<open>The upsert statement\<close>

lemma keys_upsert_row:
  "map kode_wilayah_kemendagri (upsert_row k n l g t db) = (if k \<in> set (map kode_wilayah_kemendagri db) then map kode_wilayah_kemendagri db else map kode_wilayah_kemendagri db @ [k])"
  by (induction db) auto

lemma distinct_upsert_row:
  "distinct (map kode_wilayah_kemendagri db) \<Longrightarrow> distinct (map kode_wilayah_kemendagri (upsert_row k n l g t db))"
  by (simp add: keys_upsert_row)

lemma upsert_row_absent:
  "k \<notin> set (map kode_wilayah_kemendagri db) \<Longrightarrow>
   upsert_row k n l g t db =
     db @ [\<lparr>kode_wilayah_kemendagri = k, nama_wilayah_kemendagri = n, level = l, geometry = g,
            created_at = t, updated_at = t\<rparr>]"
  by (induction db) auto

lemma upsert_row_present:
  "k \<in> set (map kode_wilayah_kemendagri db) \<Longrightarrow> distinct (map kode_wilayah_kemendagri db) \<Longrightarrow>
   upsert_row k n l g t db =
     map (\<lambda>r. if kode_wilayah_kemendagri r = k then r\<lparr>nama_wilayah_kemendagri := n, geometry := g, updated_at := t\<rparr> else r) db"
proof (induction db)
  case Nil
  then show ?case by simp
next
  case (Cons r rs)
  show ?case
  proof (cases "kode_wilayah_kemendagri r = k")
    case True
    with Cons.prems have "k \<notin> set (map kode_wilayah_kemendagri rs)" by auto
    then have "map (\<lambda>r. if kode_wilayah_kemendagri r = k then r\<lparr>nama_wilayah_kemendagri := n, geometry := g, updated_at := t\<rparr> else r) rs = rs"
      by (induction rs) auto
    with True show ?thesis by simp
  next
    case False
    with Cons show ?thesis by auto
  qed
qed

lemma varchar255_short: "length s \<le> 255 \<Longrightarrow> varchar255 s = Some s"
  by (simp add: varchar255_def)

lemma upsertFeature_values:
  "upsertFeature e st t kode nama lvl geometryObject db =
     (case upsert_values e st kode nama geometryObject of
        None \<Rightarrow> Inl (case DB_PROVIDER e of SUPABASE \<Rightarrow> SupabaseError | POSTGRES \<Rightarrow> QueryError)
      | Some w \<Rightarrow> Inr (upsert_row (fst w) (fst (snd w)) lvl (snd (snd w)) t db))"
  by (cases "DB_PROVIDER e")
     (auto simp: upsertFeature_def upsert_values_def sql_upsert_def
           split: option.splits prod.splits)

lemmas upsert_eval = upsertFeature_def sql_upsert_def sql_values_def rpc_args_def pool_param_def
  stringify_def varchar255_short

text \<open>
  C8. A successful upsert on a table with distinct keys: when the stored key is present,
  the row with that key has its name, geometry and \<open>updated_at\<close> replaced and every
  other row and column (the key and \<open>created_at\<close> among them) is as before; when it is
  absent, one row is added at the end.
\<close>

theorem upsert_frame:
  assumes "upsertFeature e st t kode nama lvl geometryObject db = Inr db'"
    and "distinct (map kode_wilayah_kemendagri db)"
  shows "\<exists>k n g. upsert_values e st kode nama geometryObject = Some (k, n, g) \<and>
           (if k \<in> kode_wilayah_kemendagri ` set db
            then db' = map (\<lambda>r. if kode_wilayah_kemendagri r = k
                                 then r\<lparr>nama_wilayah_kemendagri := n, geometry := g, updated_at := t\<rparr>
                                 else r) db
                 \<and> map kode_wilayah_kemendagri db' = map kode_wilayah_kemendagri db
                 \<and> map created_at db' = map created_at db
            else db' = db @ [\<lparr>kode_wilayah_kemendagri = k, nama_wilayah_kemendagri = n,
                               level = lvl, geometry = g, created_at = t, updated_at = t\<rparr>])"
proof -
  from assms(1) obtain k n g where v: "upsert_values e st kode nama geometryObject = Some (k, n, g)"
    and db': "db' = upsert_row k n lvl g t db"
    unfolding upsertFeature_values by (auto split: option.splits)
  show ?thesis
  proof (cases "k \<in> kode_wilayah_kemendagri ` set db")
    case True
    then have m: "db' = map (\<lambda>r. if kode_wilayah_kemendagri r = k
                                 then r\<lparr>nama_wilayah_kemendagri := n, geometry := g, updated_at := t\<rparr>
                                 else r) db"
      unfolding db' using assms(2) by (intro upsert_row_present) simp_all
    have "map kode_wilayah_kemendagri db' = map kode_wilayah_kemendagri db"
      unfolding m by (induction db) auto
    moreover have "map created_at db' = map created_at db"
      unfolding m by (induction db) auto
    ultimately show ?thesis using v True m by simp
  next
    case False
    then have "db' = db @ [\<lparr>kode_wilayah_kemendagri = k, nama_wilayah_kemendagri = n,
                               level = lvl, geometry = g, created_at = t, updated_at = t\<rparr>]"
      unfolding db' by (intro upsert_row_absent) simp
    with v False show ?thesis by simp
  qed
qed

theorem upsert_frame_witness:
  "upsertFeature \<lparr>DB_PROVIDER = SUPABASE, supabaseAdmin = True, unavailable = (\<lambda>c. False)\<rparr>
     Some 9 (Str ''11'') (Str ''Aceh'') 1 (GObject (5::nat))
     [\<lparr>kode_wilayah_kemendagri = ''11'', nama_wilayah_kemendagri = Some ''ACEH'', level = 1,
       geometry = Some (4::nat), created_at = 1, updated_at = 2\<rparr>]
   = Inr [\<lparr>kode_wilayah_kemendagri = ''11'', nama_wilayah_kemendagri = Some ''Aceh'', level = 1,
           geometry = Some 5, created_at = 1, updated_at = 9\<rparr>]
   \<and> upsertFeature \<lparr>DB_PROVIDER = POSTGRES, supabaseAdmin = False, unavailable = (\<lambda>c. False)\<rparr>
     Some 9 (Str ''11.01'') (Str ''Simeulue'') 2 (GObject (6::nat))
     [\<lparr>kode_wilayah_kemendagri = ''11'', nama_wilayah_kemendagri = Some ''ACEH'', level = 1,
       geometry = Some (4::nat), created_at = 1, updated_at = 2\<rparr>]
   = Inr [\<lparr>kode_wilayah_kemendagri = ''11'', nama_wilayah_kemendagri = Some ''ACEH'', level = 1,
           geometry = Some 4, created_at = 1, updated_at = 2\<rparr>,
          \<lparr>kode_wilayah_kemendagri = ''11.01'', nama_wilayah_kemendagri = Some ''Simeulue'',
           level = 2, geometry = Some 6, created_at = 9, updated_at = 9\<rparr>]"
  using
    upsert_frame [of "\<lparr>DB_PROVIDER = SUPABASE, supabaseAdmin = True, unavailable = (\<lambda>c. False)\<rparr>"
      Some 9 "Str ''11''" "Str ''Aceh''" 1 "GObject (5::nat)"
      "[\<lparr>kode_wilayah_kemendagri = ''11'', nama_wilayah_kemendagri = Some ''ACEH'', level = 1,
         geometry = Some (4::nat), created_at = 1, updated_at = 2\<rparr>]"
      "[\<lparr>kode_wilayah_kemendagri = ''11'', nama_wilayah_kemendagri = Some ''Aceh'', level = 1,
           geometry = Some 5, created_at = 1, updated_at = 9\<rparr>]"]
    upsert_frame [of "\<lparr>DB_PROVIDER = POSTGRES, supabaseAdmin = False, unavailable = (\<lambda>c. False)\<rparr>"
      Some 9 "Str ''11.01''" "Str ''Simeulue''" 2 "GObject (6::nat)"
      "[\<lparr>kode_wilayah_kemendagri = ''11'', nama_wilayah_kemendagri = Some ''ACEH'', level = 1,
         geometry = Some (4::nat), created_at = 1, updated_at = 2\<rparr>]"
      "[\<lparr>kode_wilayah_kemendagri = ''11'', nama_wilayah_kemendagri = Some ''ACEH'', level = 1,
           geometry = Some 4, created_at = 1, updated_at = 2\<rparr>,
          \<lparr>kode_wilayah_kemendagri = ''11.01'', nama_wilayah_kemendagri = Some ''Simeulue'',
           level = 2, geometry = Some 6, created_at = 9, updated_at = 9\<rparr>]"]
  by (simp add: upsert_eval)

text \<open>
  What the two branches make of an absent name and of a null geometry: the direct branch
  stores a NULL name and rejects the document \<^verbatim>\<open>null\<close>; the gateway has no function
  for a call without \<^verbatim>\<open>p_nama\<close> and stores a NULL geometry.
\<close>

lemma upsert_marshalling_differs:
  "upsertFeature \<lparr>DB_PROVIDER = POSTGRES, supabaseAdmin = True, unavailable = (\<lambda>c. False)\<rparr>
     Some 9 (Str ''11'') Undefined 1 (GObject (5::nat)) []
     = Inr [\<lparr>kode_wilayah_kemendagri = ''11'', nama_wilayah_kemendagri = None, level = 1,
             geometry = Some 5, created_at = 9, updated_at = 9\<rparr>]"
  "upsertFeature \<lparr>DB_PROVIDER = SUPABASE, supabaseAdmin = True, unavailable = (\<lambda>c. False)\<rparr>
     Some 9 (Str ''11'') Undefined 1 (GObject (5::nat)) []
     = Inl SupabaseError"
  "upsertFeature \<lparr>DB_PROVIDER = POSTGRES, supabaseAdmin = True, unavailable = (\<lambda>c. False)\<rparr>
     Some 9 (Str ''11'') (Str ''Aceh'') 1 (GNull :: nat jsgeo) []
     = Inl QueryError"
  "upsertFeature \<lparr>DB_PROVIDER = SUPABASE, supabaseAdmin = True, unavailable = (\<lambda>c. False)\<rparr>
     Some 9 (Str ''11'') (Str ''Aceh'') 1 (GNull :: nat jsgeo) []
     = Inr [\<lparr>kode_wilayah_kemendagri = ''11'', nama_wilayah_kemendagri = Some ''Aceh'', level = 1,
             geometry = None, created_at = 9, updated_at = 9\<rparr>]"
  by (simp_all add: upsert_eval)

section \<open>The code deriver on absent properties, and its caller\<close>

text \<open>
  C7 (amended). The deriver is a function of the property bag and the level. It yields the
  empty identifier for every level outside 1 to 4, and otherwise only at level 1 for an
  empty raw code. An absent top code is an undefined identifier at level 1; at levels 2 to
  4 an absent top, second or fourth-level code is spelled \<open>undefined\<close> inside the
  identifier; an absent third-level code at levels 3 and 4, and an absent property bag at
  levels 1 to 4, raise a TypeError. The feature loop makes no check of the identifier: a
  TypeError ends the batch, and whatever pair the deriver returns is handed to
  \<open>upsertFeature\<close>.
\<close>

theorem derive_missing_property:
  shows "(transformProperties fp lvl = Inr (Str [], nm) \<longrightarrow>
            (lvl \<noteq> 1 \<and> lvl \<noteq> 2 \<and> lvl \<noteq> 3 \<and> lvl \<noteq> 4)
            \<or> (lvl = 1 \<and> (\<exists>p. fp = Some p \<and> kd_propinsi p = Str [])))
       \<and> (lvl \<noteq> 1 \<and> lvl \<noteq> 2 \<and> lvl \<noteq> 3 \<and> lvl \<noteq> 4 \<longrightarrow>
            transformProperties fp lvl = Inr (Str [], Str []))
       \<and> (kd_propinsi p = Undefined \<longrightarrow>
            transformProperties (Some p) 1 = Inr (Undefined, nm_propinsi p)
            \<and> transformProperties (Some p) 2
                = Inr (Str (''undefined.'' @ template (kd_dati2 p)), nm_dati2 p))
       \<and> (kd_dati2 p = Undefined \<longrightarrow>
            transformProperties (Some p) 2
              = Inr (Str (template (kd_propinsi p) @ ''.undefined''), nm_dati2 p))
       \<and> (kd_kecamatan p = Undefined \<longrightarrow>
            transformProperties (Some p) 3 = Inl TypeError
            \<and> transformProperties (Some p) 4 = Inl TypeError)
       \<and> (kd_kecamatan p = Str c \<and> kd_kelurahan p = Undefined \<longrightarrow>
            transformProperties (Some p) 4
              = Inr (Str (template (kd_propinsi p) @ ''.'' @ template (kd_dati2 p) @ ''.''
                          @ slice_last2 c @ ''.2undefined''),
                     nm_kelurahan p))
       \<and> (kd_kecamatan p = Str c \<and> kd_propinsi p = Undefined \<longrightarrow>
            transformProperties (Some p) 3
              = Inr (Str (''undefined.'' @ template (kd_dati2 p) @ ''.'' @ slice_last2 c),
                     nm_kecamatan p)
            \<and> transformProperties (Some p) 4
              = Inr (Str (''undefined.'' @ template (kd_dati2 p) @ ''.'' @ slice_last2 c
                          @ ''.2'' @ template (kd_kelurahan p)),
                     nm_kelurahan p))
       \<and> (kd_kecamatan p = Str c \<and> kd_dati2 p = Undefined \<longrightarrow>
            transformProperties (Some p) 3
              = Inr (Str (template (kd_propinsi p) @ ''.undefined.'' @ slice_last2 c),
                     nm_kecamatan p)
            \<and> transformProperties (Some p) 4
              = Inr (Str (template (kd_propinsi p) @ ''.undefined.'' @ slice_last2 c
                          @ ''.2'' @ template (kd_kelurahan p)),
                     nm_kelurahan p))
       \<and> (lvl = 1 \<or> lvl = 2 \<or> lvl = 3 \<or> lvl = 4 \<longrightarrow> transformProperties None lvl = Inl TypeError)
       \<and> (transformProperties (fst f) lvl = Inl x \<longrightarrow>
            ingest e st now lvl (f # fs) (n, db) = (Inl x, db))
       \<and> (transformProperties (fst f) lvl = Inr (kode, nama) \<longrightarrow>
            ingest e st now lvl (f # fs) (n, db)
              = (case upsertFeature e st (now n) kode nama lvl (snd f) db of
                   Inl x \<Rightarrow> (Inl x, db)
                 | Inr db' \<Rightarrow> ingest e st now lvl fs (Suc n, db')))"
  by (auto simp: transformProperties_def split: option.splits jsval.splits if_splits)

theorem derive_missing_property_witness:
  "transformProperties
     (Some \<lparr>kd_propinsi = Undefined, nm_propinsi = Undefined, kd_dati2 = Str ''01'',
            nm_dati2 = Str ''Simeulue'', kd_kecamatan = Undefined, nm_kecamatan = Undefined,
            kd_kelurahan = Undefined, nm_kelurahan = Undefined\<rparr>) 1
     = Inr (Undefined, Undefined)
   \<and> transformProperties
     (Some \<lparr>kd_propinsi = Undefined, nm_propinsi = Undefined, kd_dati2 = Str ''01'',
            nm_dati2 = Str ''Simeulue'', kd_kecamatan = Undefined, nm_kecamatan = Undefined,
            kd_kelurahan = Undefined, nm_kelurahan = Undefined\<rparr>) 3
     = Inl TypeError
   \<and> transformProperties None 4 = Inl TypeError
   \<and> transformProperties None 5 = Inr (Str '''', Str '''')
   \<and> ingest \<lparr>DB_PROVIDER = POSTGRES, supabaseAdmin = False, unavailable = (\<lambda>c. False)\<rparr>
       Some (\<lambda>n. n) 3
       [(Some \<lparr>kd_propinsi = Undefined, nm_propinsi = Undefined, kd_dati2 = Str ''01'',
            nm_dati2 = Str ''Simeulue'', kd_kecamatan = Undefined, nm_kecamatan = Undefined,
            kd_kelurahan = Undefined, nm_kelurahan = Undefined\<rparr>, GObject (0::nat))]
       (0, [])
     = (Inl TypeError, [])
   \<and> ingest \<lparr>DB_PROVIDER = POSTGRES, supabaseAdmin = False, unavailable = (\<lambda>c. False)\<rparr>
       Some (\<lambda>n. n) 5
       [(None, GObject (0::nat))]
       (0, [])
     = (Inr 1, [\<lparr>kode_wilayah_kemendagri = '''', nama_wilayah_kemendagri = Some '''', level = 5,
                 geometry = Some 0, created_at = 0, updated_at = 0\<rparr>])
   \<and> ingest \<lparr>DB_PROVIDER = POSTGRES, supabaseAdmin = False, unavailable = (\<lambda>c. False)\<rparr>
       Some (\<lambda>n. n) 2
       [(Some \<lparr>kd_propinsi = Undefined, nm_propinsi = Undefined, kd_dati2 = Str ''01'',
            nm_dati2 = Str ''Simeulue'', kd_kecamatan = Undefined, nm_kecamatan = Undefined,
            kd_kelurahan = Undefined, nm_kelurahan = Undefined\<rparr>, GObject (0::nat))]
       (0, [])
     = (Inr 1, [\<lparr>kode_wilayah_kemendagri = ''undefined.01'',
                 nama_wilayah_kemendagri = Some ''Simeulue'', level = 2,
                 geometry = Some 0, created_at = 0, updated_at = 0\<rparr>])"
  using derive_missing_property
    [where fp = None and lvl = 5 and nm = "Str ''''"
       and p = "\<lparr>kd_propinsi = Undefined, nm_propinsi = Undefined, kd_dati2 = Str ''01'',
            nm_dati2 = Str ''Simeulue'', kd_kecamatan = Undefined, nm_kecamatan = Undefined,
            kd_kelurahan = Undefined, nm_kelurahan = Undefined\<rparr>"
       and f = "(None, GObject (0::nat))"
       and x = TypeError and kode = "Str ''''" and nama = "Str ''''"
       and e = "\<lparr>DB_PROVIDER = POSTGRES, supabaseAdmin = False, unavailable = (\<lambda>c. False)\<rparr>"
       and st = Some and now = "\<lambda>n. n" and fs = "[]" and n = 0 and db = "[]" and c = "''05''"]
    derive_missing_property
    [where fp = None and lvl = 3 and nm = "Str ''''"
       and p = "\<lparr>kd_propinsi = Undefined, nm_propinsi = Undefined, kd_dati2 = Str ''01'',
            nm_dati2 = Str ''Simeulue'', kd_kecamatan = Undefined, nm_kecamatan = Undefined,
            kd_kelurahan = Undefined, nm_kelurahan = Undefined\<rparr>"
       and f = "(Some \<lparr>kd_propinsi = Undefined, nm_propinsi = Undefined, kd_dati2 = Str ''01'',
            nm_dati2 = Str ''Simeulue'', kd_kecamatan = Undefined, nm_kecamatan = Undefined,
            kd_kelurahan = Undefined, nm_kelurahan = Undefined\<rparr>, GObject (0::nat))"
       and x = TypeError and kode = "Str ''''" and nama = "Str ''''"
       and e = "\<lparr>DB_PROVIDER = POSTGRES, supabaseAdmin = False, unavailable = (\<lambda>c. False)\<rparr>"
       and st = Some and now = "\<lambda>n. n" and fs = "[]" and n = 0 and db = "[] :: nat option store"
       and c = "''05''"]
  by (simp add: transformProperties_def upsert_eval)

text \<open>
  A level-2 feature without its top code: the identifier is not empty.
\<close>

theorem derive_missing_property_counterexample:
  "transformProperties
     (Some \<lparr>kd_propinsi = Undefined, nm_propinsi = Undefined, kd_dati2 = Str ''01'',
            nm_dati2 = Str ''Simeulue'', kd_kecamatan = Undefined, nm_kecamatan = Undefined,
            kd_kelurahan = Undefined, nm_kelurahan = Undefined\<rparr>) 2
   = Inr (Str ''undefined.01'', Str ''Simeulue'')"
  by (simp add: transformProperties_def)

section \<open>Ingesting a batch twice\<close>

lemma ingest_Cons:
  "ingest e st now lvl (f # fs) (n, db) =
     (case transformProperties (fst f) lvl of
        Inl x \<Rightarrow> (Inl x, db)
      | Inr kn \<Rightarrow>
          (case upsert_values e st (fst kn) (snd kn) (snd f) of
             None \<Rightarrow> (Inl (case DB_PROVIDER e of SUPABASE \<Rightarrow> SupabaseError | POSTGRES \<Rightarrow> QueryError), db)
           | Some w \<Rightarrow>
               ingest e st now lvl fs
                 (Suc n, upsert_row (fst w) (fst (snd w)) lvl (snd (snd w)) (now n) db)))"
  by (simp add: upsertFeature_values split: sum.splits prod.splits option.splits)

lemma ingest_run_writes:
  "snd (ingest e st now lvl fs (n, db)) =
     run_writes lvl now n
       (map (\<lambda>f. the (feature_values e st lvl f))
          (takeWhile (\<lambda>f. feature_values e st lvl f \<noteq> None) fs)) db"
proof (induction fs arbitrary: n db)
  case Nil
  then show ?case by simp
next
  case (Cons f fs)
  show ?case
    unfolding ingest_Cons using Cons.IH
    by (auto simp: feature_values_def split: sum.splits option.splits prod.splits)
qed

lemma ingest_result:
  "fst (ingest e st now lvl fs (n, db)) =
     (case find (\<lambda>f. feature_values e st lvl f = None) fs of
        None \<Rightarrow> Inr (n + length fs)
      | Some f \<Rightarrow>
          Inl (case transformProperties (fst f) lvl of
                 Inl x \<Rightarrow> x
               | Inr kn \<Rightarrow> (case DB_PROVIDER e of SUPABASE \<Rightarrow> SupabaseError | POSTGRES \<Rightarrow> QueryError)))"
proof (induction fs arbitrary: n db)
  case Nil
  then show ?case by simp
next
  case (Cons f fs)
  show ?case
    unfolding ingest_Cons using Cons.IH
    by (auto simp: feature_values_def split: sum.splits option.splits prod.splits)
qed

lemma keyset_upsert_row:
  "kode_wilayah_kemendagri ` set (upsert_row k nm l g t db) = insert k (kode_wilayah_kemendagri ` set db)"
  by (induction db) auto

lemma keys_run_writes:
  "kode_wilayah_kemendagri ` set (run_writes lvl now n W db) = kode_wilayah_kemendagri ` set db \<union> fst ` set W"
  by (induction W arbitrary: n db) (simp_all add: keyset_upsert_row)

lemma distinct_run_writes:
  "distinct (map kode_wilayah_kemendagri db) \<Longrightarrow> distinct (map kode_wilayah_kemendagri (run_writes lvl now n W db))"
  by (induction W arbitrary: n db) (auto simp: distinct_upsert_row)

lemma upsert_row_other:
  "r \<in> set (upsert_row k nm l g t db) \<Longrightarrow> kode_wilayah_kemendagri r \<noteq> k \<Longrightarrow> r \<in> set db"
  by (induction db) (auto split: if_splits)

lemma upsert_row_written:
  "r \<in> set (upsert_row k nm l g t db) \<Longrightarrow> kode_wilayah_kemendagri r = k \<Longrightarrow> distinct (map kode_wilayah_kemendagri db) \<Longrightarrow>
   nama_wilayah_kemendagri r = nm \<and> geometry r = g"
proof (induction db)
  case Nil
  then show ?case by simp
next
  case (Cons a db)
  show ?case
  proof (cases "kode_wilayah_kemendagri a = k")
    case True
    with Cons.prems(3) have "k \<notin> kode_wilayah_kemendagri ` set db" by simp
    with Cons.prems(2) have "r \<notin> set db" by blast
    with Cons.prems(1) True
    have "r = a\<lparr>nama_wilayah_kemendagri := nm, geometry := g, updated_at := t\<rparr>" by simp
    then show ?thesis by simp
  next
    case False
    with Cons.prems(1,2) have "r \<in> set (upsert_row k nm l g t db)" by auto
    with Cons.IH Cons.prems(2,3) show ?thesis by simp
  qed
qed

lemma run_writes_other:
  "r \<in> set (run_writes lvl now n W db) \<Longrightarrow> kode_wilayah_kemendagri r \<notin> fst ` set W \<Longrightarrow> r \<in> set db"
proof (induction W arbitrary: n db)
  case Nil
  then show ?case by simp
next
  case (Cons w W)
  then have "r \<in> set (upsert_row (fst w) (fst (snd w)) lvl (snd (snd w)) (now n) db)"
    by auto
  with Cons.prems show ?case by (auto dest: upsert_row_other)
qed

lemma run_writes_final:
  "r \<in> set (run_writes lvl now n W db) \<Longrightarrow> distinct (map kode_wilayah_kemendagri db) \<Longrightarrow>
   map_of (rev W) (kode_wilayah_kemendagri r) = Some v \<Longrightarrow> nama_wilayah_kemendagri r = fst v \<and> geometry r = snd v"
proof (induction W arbitrary: n db)
  case Nil
  then show ?case by simp
next
  case (Cons w W)
  let ?db = "upsert_row (fst w) (fst (snd w)) lvl (snd (snd w)) (now n) db"
  have r: "r \<in> set (run_writes lvl now (Suc n) W ?db)" using Cons.prems(1) by simp
  have d: "distinct (map kode_wilayah_kemendagri ?db)" using Cons.prems(2) by (rule distinct_upsert_row)
  show ?case
  proof (cases "map_of (rev W) (kode_wilayah_kemendagri r)")
    case (Some v')
    with Cons.prems(3) have "v' = v" by (simp add: map_add_def)
    with Cons.IH [OF r d] Some show ?thesis by simp
  next
    case None
    with Cons.prems(3) have w: "kode_wilayah_kemendagri r = fst w" "v = snd w"
      by (auto simp: map_add_def split: if_splits prod.splits)
    from None have "kode_wilayah_kemendagri r \<notin> fst ` set W"
      by (simp add: map_of_eq_None_iff)
    with r have "r \<in> set ?db" by (rule run_writes_other)
    with upsert_row_written [of r "fst w" "fst (snd w)" lvl "snd (snd w)" "now n" db] w Cons.prems(2)
    show ?thesis by simp
  qed
qed

lemma run_writes_absorb:
  "fst ` set W \<subseteq> set (map kode_wilayah_kemendagri db) \<Longrightarrow> distinct (map kode_wilayah_kemendagri db) \<Longrightarrow>
   map content (run_writes lvl now n W db) =
     map (\<lambda>r. case map_of (rev W) (kode_wilayah_kemendagri r) of None \<Rightarrow> content r
              | Some v \<Rightarrow> content (r\<lparr>nama_wilayah_kemendagri := fst v, geometry := snd v\<rparr>)) db"
proof (induction W arbitrary: n db)
  case Nil
  then show ?case by simp
next
  case (Cons w W)
  let ?u = "\<lambda>r. if kode_wilayah_kemendagri r = fst w then r\<lparr>nama_wilayah_kemendagri := fst (snd w), geometry := snd (snd w), updated_at := now n\<rparr> else r"
  let ?db = "upsert_row (fst w) (fst (snd w)) lvl (snd (snd w)) (now n) db"
  have db: "?db = map ?u db"
    using Cons.prems by (intro upsert_row_present) auto
  have k: "map kode_wilayah_kemendagri ?db = map kode_wilayah_kemendagri db" using Cons.prems by (auto simp: keys_upsert_row)
  have "map content (run_writes lvl now (Suc n) W ?db) =
     map (\<lambda>r. case map_of (rev W) (kode_wilayah_kemendagri r) of None \<Rightarrow> content r
              | Some v \<Rightarrow> content (r\<lparr>nama_wilayah_kemendagri := fst v, geometry := snd v\<rparr>)) ?db"
    using Cons.prems by (intro Cons.IH) (auto simp: k)
  also have "\<dots> = map (\<lambda>r. case map_of (rev (w # W)) (kode_wilayah_kemendagri r) of None \<Rightarrow> content r
              | Some v \<Rightarrow> content (r\<lparr>nama_wilayah_kemendagri := fst v, geometry := snd v\<rparr>)) db"
    unfolding db by (auto simp: content_def map_add_def split: option.splits prod.splits)
  finally show ?case by simp
qed

lemma run_writes_twice:
  assumes "distinct (map kode_wilayah_kemendagri db)"
  shows "map content (run_writes lvl now' n' W (run_writes lvl now n W db))
         = map content (run_writes lvl now n W db)"
proof -
  let ?db1 = "run_writes lvl now n W db"
  have d: "distinct (map kode_wilayah_kemendagri ?db1)" using assms by (rule distinct_run_writes)
  have s: "fst ` set W \<subseteq> set (map kode_wilayah_kemendagri ?db1)" using keys_run_writes [of lvl now n W db] by simp
  have "map content (run_writes lvl now' n' W ?db1) =
     map (\<lambda>r. case map_of (rev W) (kode_wilayah_kemendagri r) of None \<Rightarrow> content r
              | Some v \<Rightarrow> content (r\<lparr>nama_wilayah_kemendagri := fst v, geometry := snd v\<rparr>)) ?db1"
    using s d by (rule run_writes_absorb)
  also have "\<dots> = map content ?db1"
  proof (rule map_cong [OF refl])
    fix r assume r: "r \<in> set ?db1"
    show "(case map_of (rev W) (kode_wilayah_kemendagri r) of None \<Rightarrow> content r
              | Some v \<Rightarrow> content (r\<lparr>nama_wilayah_kemendagri := fst v, geometry := snd v\<rparr>)) = content r"
    proof (cases "map_of (rev W) (kode_wilayah_kemendagri r)")
      case None
      then show ?thesis by simp
    next
      case (Some v)
      with run_writes_final [OF r assms Some] show ?thesis by (simp add: content_def)
    qed
  qed
  finally show ?thesis .
qed

lemma upsert_row_keeps:
  "r \<in> set db \<Longrightarrow> kode_wilayah_kemendagri r \<noteq> k \<Longrightarrow> r \<in> set (upsert_row k nm l g t db)"
  by (induction db) auto

lemma run_writes_keeps:
  "r \<in> set db \<Longrightarrow> kode_wilayah_kemendagri r \<notin> fst ` set W \<Longrightarrow>
   r \<in> set (run_writes lvl now n W db)"
proof (induction W arbitrary: n db)
  case Nil
  then show ?case by simp
next
  case (Cons w W)
  from Cons.prems have "r \<in> set (upsert_row (fst w) (fst (snd w)) lvl (snd (snd w)) (now n) db)"
    by (intro upsert_row_keeps) auto
  with Cons.IH Cons.prems(2) show ?case by simp
qed

lemma upsert_row_origin:
  "r \<in> set (upsert_row k nm l g t db) \<Longrightarrow>
   (\<exists>r0 \<in> set db. kode_wilayah_kemendagri r0 = kode_wilayah_kemendagri r \<and> level r0 = level r
        \<and> created_at r0 = created_at r)
   \<or> (kode_wilayah_kemendagri r \<notin> kode_wilayah_kemendagri ` set db
       \<and> kode_wilayah_kemendagri r = k \<and> level r = l \<and> created_at r = t)"
proof (induction db)
  case Nil
  then show ?case by simp
next
  case (Cons a db)
  show ?case
  proof (cases "kode_wilayah_kemendagri a = k")
    case True
    with Cons.prems have "r = a\<lparr>nama_wilayah_kemendagri := nm, geometry := g, updated_at := t\<rparr>
        \<or> r \<in> set db" by simp
    then show ?thesis by auto
  next
    case False
    with Cons.prems have "r = a \<or> r \<in> set (upsert_row k nm l g t db)" by simp
    then show ?thesis
    proof
      assume "r = a" then show ?thesis by simp
    next
      assume "r \<in> set (upsert_row k nm l g t db)"
      from Cons.IH [OF this] False show ?thesis by auto
    qed
  qed
qed

lemma run_writes_origin:
  "r \<in> set (run_writes lvl now n W db) \<Longrightarrow>
   (\<exists>r0 \<in> set db. kode_wilayah_kemendagri r0 = kode_wilayah_kemendagri r \<and> level r0 = level r
        \<and> created_at r0 = created_at r)
   \<or> (kode_wilayah_kemendagri r \<notin> kode_wilayah_kemendagri ` set db \<and> level r = lvl)"
proof (induction W arbitrary: n db)
  case Nil
  then show ?case by auto
next
  case (Cons w W)
  let ?db = "upsert_row (fst w) (fst (snd w)) lvl (snd (snd w)) (now n) db"
  from Cons.prems have r: "r \<in> set (run_writes lvl now (Suc n) W ?db)" by simp
  have keys: "kode_wilayah_kemendagri ` set ?db = insert (fst w) (kode_wilayah_kemendagri ` set db)"
    by (rule keyset_upsert_row)
  from Cons.IH [OF r] show ?case
  proof
    assume "\<exists>r0 \<in> set ?db. kode_wilayah_kemendagri r0 = kode_wilayah_kemendagri r
        \<and> level r0 = level r \<and> created_at r0 = created_at r"
    then obtain r0 where r0: "r0 \<in> set ?db" "kode_wilayah_kemendagri r0 = kode_wilayah_kemendagri r"
      "level r0 = level r" "created_at r0 = created_at r" by blast
    from upsert_row_origin [OF r0(1)] r0(2-4) show ?thesis by auto
  next
    assume "kode_wilayah_kemendagri r \<notin> kode_wilayah_kemendagri ` set ?db \<and> level r = lvl"
    with keys show ?thesis by auto
  qed
qed

lemma upsert_row_successor:
  "r \<in> set db \<Longrightarrow>
   \<exists>r' \<in> set (upsert_row k nm l g t db). kode_wilayah_kemendagri r' = kode_wilayah_kemendagri r
      \<and> level r' = level r \<and> created_at r' = created_at r"
  by (induction db) auto

lemma run_writes_successor:
  "r \<in> set db \<Longrightarrow>
   \<exists>r' \<in> set (run_writes lvl now n W db). kode_wilayah_kemendagri r' = kode_wilayah_kemendagri r
      \<and> level r' = level r \<and> created_at r' = created_at r"
proof (induction W arbitrary: n db r)
  case Nil
  then show ?case by auto
next
  case (Cons w W)
  from upsert_row_successor [OF Cons.prems, of "fst w" "fst (snd w)" lvl "snd (snd w)" "now n"]
  obtain r1 where r1: "r1 \<in> set (upsert_row (fst w) (fst (snd w)) lvl (snd (snd w)) (now n) db)"
    "kode_wilayah_kemendagri r1 = kode_wilayah_kemendagri r" "level r1 = level r"
    "created_at r1 = created_at r" by blast
  from Cons.IH [OF r1(1), of "Suc n"] r1(2-4) show ?case by auto
qed

lemma map_of_rev_last_write:
  assumes "W = pre @ (k, v) # post" and "k \<notin> fst ` set post"
  shows "map_of (rev W) k = Some v"
proof -
  have "map_of (rev post) k = None" using assms(2) by (simp add: map_of_eq_None_iff)
  then show ?thesis unfolding assms(1) by (simp add: map_add_def)
qed

lemma written_keys:
  "fst ` set (map (\<lambda>f. the (V f)) (takeWhile (\<lambda>f. V f \<noteq> None) fs))
     = {k. \<exists>f \<in> set (takeWhile (\<lambda>f. V f \<noteq> None) fs). \<exists>n g. V f = Some (k, n, g)}"
proof -
  have "\<And>f. f \<in> set (takeWhile (\<lambda>f. V f \<noteq> None) fs) \<Longrightarrow> V f \<noteq> None"
    by (auto dest: set_takeWhileD)
  then show ?thesis by (force simp: image_iff)
qed

text \<open>
  C4. Ingesting the same batch a second time, on the table the first run left, gives the
  same result, the same number of rows, still no key twice, and key, name and geometry of
  every row as they were. The first run succeeds exactly when every feature can be
  written, and then counts them all. With \<open>ws\<close> the features up to the first that cannot
  be written: the keys of the table are the old keys and the keys of \<open>ws\<close> (an absent
  identifier is inserted); the row of a key holds the name and geometry of the last
  feature of \<open>ws\<close> with that key (a present identifier is overwritten); a row whose key
  no feature of \<open>ws\<close> has is as it was. An inserted row has the level of the batch, and
  every old row keeps its key, level and \<open>created_at\<close>.
\<close>

theorem ingest_idempotent:
  assumes "distinct (map kode_wilayah_kemendagri db)"
    and "ingest e st now lvl fs (0, db) = (res1, db1)"
    and "ingest e st now' lvl fs (0, db1) = (res2, db2)"
  shows "res2 = res1 \<and> length db2 = length db1 \<and> distinct (map kode_wilayah_kemendagri db2)
         \<and> map (\<lambda>r. (kode_wilayah_kemendagri r, nama_wilayah_kemendagri r, geometry r)) db2
           = map (\<lambda>r. (kode_wilayah_kemendagri r, nama_wilayah_kemendagri r, geometry r)) db1
         \<and> distinct (map kode_wilayah_kemendagri db1)
         \<and> ((\<exists>m. res1 = Inr m) = (\<forall>f \<in> set fs. feature_values e st lvl f \<noteq> None))
         \<and> (\<forall>m. res1 = Inr m \<longrightarrow> m = length fs)
         \<and> (let ws = takeWhile (\<lambda>f. feature_values e st lvl f \<noteq> None) fs in
              kode_wilayah_kemendagri ` set db1
                = kode_wilayah_kemendagri ` set db
                  \<union> {k. \<exists>f \<in> set ws. \<exists>n g. feature_values e st lvl f = Some (k, n, g)}
              \<and> (\<forall>r \<in> set db1. \<forall>pre f post n g.
                    ws = pre @ f # post
                    \<and> feature_values e st lvl f = Some (kode_wilayah_kemendagri r, n, g)
                    \<and> (\<forall>f' \<in> set post. \<forall>n' g'.
                          feature_values e st lvl f' \<noteq> Some (kode_wilayah_kemendagri r, n', g'))
                    \<longrightarrow> nama_wilayah_kemendagri r = n \<and> geometry r = g)
              \<and> (\<forall>r \<in> set db.
                    (\<forall>f \<in> set ws. \<forall>n g.
                       feature_values e st lvl f \<noteq> Some (kode_wilayah_kemendagri r, n, g))
                    \<longrightarrow> r \<in> set db1))
         \<and> (\<forall>r \<in> set db1.
               kode_wilayah_kemendagri r \<notin> kode_wilayah_kemendagri ` set db \<longrightarrow> level r = lvl)
         \<and> (\<forall>r \<in> set db. \<exists>r' \<in> set db1.
               kode_wilayah_kemendagri r' = kode_wilayah_kemendagri r \<and> level r' = level r
               \<and> created_at r' = created_at r)"
proof -
  let ?V = "feature_values e st lvl"
  let ?ws = "takeWhile (\<lambda>f. ?V f \<noteq> None) fs"
  let ?W = "map (\<lambda>f. the (?V f)) ?ws"
  have 1: "db1 = run_writes lvl now 0 ?W db"
    using ingest_run_writes [of e st now lvl fs 0 db] assms(2) by simp
  have 2: "db2 = run_writes lvl now' 0 ?W db1"
    using ingest_run_writes [of e st now' lvl fs 0 db1] assms(3) by simp
  have r1: "res1 = fst (ingest e st now lvl fs (0, db))" using assms(2) by simp
  have r2: "res2 = fst (ingest e st now' lvl fs (0, db1))" using assms(3) by simp
  have res: "res2 = res1" unfolding r1 r2 ingest_result ..
  have c: "map content db2 = map content db1"
    unfolding 2 1 using assms(1) by (rule run_writes_twice)
  have "map (\<lambda>c. (fst c, fst (snd c), fst (snd (snd (snd c))))) (map content db2)
      = map (\<lambda>c. (fst c, fst (snd c), fst (snd (snd (snd c))))) (map content db1)"
    using c by simp
  then have m: "map (\<lambda>r. (kode_wilayah_kemendagri r, nama_wilayah_kemendagri r, geometry r)) db2
           = map (\<lambda>r. (kode_wilayah_kemendagri r, nama_wilayah_kemendagri r, geometry r)) db1"
    by (simp add: content_def comp_def)
  have l: "length db2 = length db1" using c by (metis length_map)
  have d1: "distinct (map kode_wilayah_kemendagri db1)"
    unfolding 1 using assms(1) by (rule distinct_run_writes)
  have d2: "distinct (map kode_wilayah_kemendagri db2)"
    unfolding 2 using d1 by (rule distinct_run_writes)
  have "(\<exists>m. res1 = Inr m) = (find (\<lambda>f. ?V f = None) fs = None)"
    unfolding r1 ingest_result by (cases "find (\<lambda>f. ?V f = None) fs") auto
  also have "\<dots> = (\<forall>f \<in> set fs. ?V f \<noteq> None)"
    by (auto simp: find_None_iff)
  finally have ok: "(\<exists>m. res1 = Inr m) = (\<forall>f \<in> set fs. ?V f \<noteq> None)" .
  have cnt: "\<forall>m. res1 = Inr m \<longrightarrow> m = length fs"
    unfolding r1 ingest_result by (auto split: option.splits)
  have wk: "fst ` set ?W = {k. \<exists>f \<in> set ?ws. \<exists>n g. ?V f = Some (k, n, g)}"
    by (rule written_keys)
  have keys: "kode_wilayah_kemendagri ` set db1
                = kode_wilayah_kemendagri ` set db
                  \<union> {k. \<exists>f \<in> set ?ws. \<exists>n g. ?V f = Some (k, n, g)}"
    unfolding 1 keys_run_writes wk ..
  have last: "\<forall>r \<in> set db1. \<forall>pre f post n g.
                    ?ws = pre @ f # post
                    \<and> ?V f = Some (kode_wilayah_kemendagri r, n, g)
                    \<and> (\<forall>f' \<in> set post. \<forall>n' g'.
                          ?V f' \<noteq> Some (kode_wilayah_kemendagri r, n', g'))
                    \<longrightarrow> nama_wilayah_kemendagri r = n \<and> geometry r = g"
  proof (intro ballI allI impI)
    fix r pre f post n g
    assume r: "r \<in> set db1"
    assume h: "?ws = pre @ f # post
                    \<and> ?V f = Some (kode_wilayah_kemendagri r, n, g)
                    \<and> (\<forall>f' \<in> set post. \<forall>n' g'.
                          ?V f' \<noteq> Some (kode_wilayah_kemendagri r, n', g'))"
    then have split: "?ws = pre @ f # post" and f: "?V f = Some (kode_wilayah_kemendagri r, n, g)"
      and post: "\<forall>f' \<in> set post. \<forall>n' g'. ?V f' \<noteq> Some (kode_wilayah_kemendagri r, n', g')"
      by blast+
    have some: "?V f' \<noteq> None" if "f' \<in> set ?ws" for f'
      using that by (auto dest: set_takeWhileD)
    have Wsplit: "?W = map (\<lambda>f. the (?V f)) pre @ (kode_wilayah_kemendagri r, (n, g))
                     # map (\<lambda>f. the (?V f)) post"
      unfolding split using f by simp
    have "kode_wilayah_kemendagri r \<notin> fst ` set (map (\<lambda>f. the (?V f)) post)"
    proof
      assume "kode_wilayah_kemendagri r \<in> fst ` set (map (\<lambda>f. the (?V f)) post)"
      then obtain f' where f': "f' \<in> set post" "fst (the (?V f')) = kode_wilayah_kemendagri r"
        by auto
      from f'(1) have "f' \<in> set (pre @ f # post)" by simp
      then have "f' \<in> set ?ws" unfolding split .
      from some [OF this] obtain k' n' g' where v: "?V f' = Some (k', n', g')"
        by (cases "?V f'") auto
      with f'(2) post f'(1) show False by auto
    qed
    with Wsplit have "map_of (rev ?W) (kode_wilayah_kemendagri r) = Some (n, g)"
      by (rule map_of_rev_last_write)
    from run_writes_final [OF r [unfolded 1] assms(1) this]
    show "nama_wilayah_kemendagri r = n \<and> geometry r = g" by simp
  qed
  have keep: "\<forall>r \<in> set db.
                    (\<forall>f \<in> set ?ws. \<forall>n g. ?V f \<noteq> Some (kode_wilayah_kemendagri r, n, g))
                    \<longrightarrow> r \<in> set db1"
  proof (intro ballI impI)
    fix r assume r: "r \<in> set db"
      and n: "\<forall>f \<in> set ?ws. \<forall>n g. ?V f \<noteq> Some (kode_wilayah_kemendagri r, n, g)"
    from n have "kode_wilayah_kemendagri r \<notin> fst ` set ?W" unfolding wk by blast
    with r show "r \<in> set db1" unfolding 1 by (rule run_writes_keeps)
  qed
  have new: "\<forall>r \<in> set db1.
               kode_wilayah_kemendagri r \<notin> kode_wilayah_kemendagri ` set db \<longrightarrow> level r = lvl"
  proof (intro ballI impI)
    fix r assume r: "r \<in> set db1"
      and k: "kode_wilayah_kemendagri r \<notin> kode_wilayah_kemendagri ` set db"
    from run_writes_origin [OF r [unfolded 1]] k show "level r = lvl" by (metis imageI)
  qed
  have old: "\<forall>r \<in> set db. \<exists>r' \<in> set db1.
               kode_wilayah_kemendagri r' = kode_wilayah_kemendagri r \<and> level r' = level r
               \<and> created_at r' = created_at r"
  proof
    fix r assume "r \<in> set db"
    then show "\<exists>r' \<in> set db1.
               kode_wilayah_kemendagri r' = kode_wilayah_kemendagri r \<and> level r' = level r
               \<and> created_at r' = created_at r"
      unfolding 1 by (rule run_writes_successor)
  qed
  show ?thesis
    unfolding Let_def
  proof (intro conjI)
    show "res2 = res1" by (fact res)
    show "length db2 = length db1" by (fact l)
    show "distinct (map kode_wilayah_kemendagri db2)" by (fact d2)
    show "distinct (map kode_wilayah_kemendagri db1)" by (fact d1)
  qed (fact m ok cnt keys last keep new old)+
qed

theorem ingest_idempotent_witness:
  "ingest \<lparr>DB_PROVIDER = POSTGRES, supabaseAdmin = False, unavailable = (\<lambda>c. False)\<rparr>
     Some (\<lambda>n. 10 + n) 2
     [(Some \<lparr>kd_propinsi = Str ''11'', nm_propinsi = Str ''Aceh'', kd_dati2 = Str ''01'',
             nm_dati2 = Str ''Simeulue'', kd_kecamatan = Undefined, nm_kecamatan = Undefined,
             kd_kelurahan = Undefined, nm_kelurahan = Undefined\<rparr>, GObject (7::nat)),
      (Some \<lparr>kd_propinsi = Str ''11'', nm_propinsi = Str ''Aceh'', kd_dati2 = Str ''01'',
             nm_dati2 = Str ''SIMEULUE'', kd_kecamatan = Undefined, nm_kecamatan = Undefined,
             kd_kelurahan = Undefined, nm_kelurahan = Undefined\<rparr>, GObject 8)]
     (0, [])
   = (Inr 2, [\<lparr>kode_wilayah_kemendagri = ''11.01'', nama_wilayah_kemendagri = Some ''SIMEULUE'',
               level = 2, geometry = Some 8, created_at = 10, updated_at = 11\<rparr>])
   \<and> ingest \<lparr>DB_PROVIDER = POSTGRES, supabaseAdmin = False, unavailable = (\<lambda>c. False)\<rparr>
     Some (\<lambda>n. 20 + n) 2
     [(Some \<lparr>kd_propinsi = Str ''11'', nm_propinsi = Str ''Aceh'', kd_dati2 = Str ''01'',
             nm_dati2 = Str ''Simeulue'', kd_kecamatan = Undefined, nm_kecamatan = Undefined,
             kd_kelurahan = Undefined, nm_kelurahan = Undefined\<rparr>, GObject (7::nat)),
      (Some \<lparr>kd_propinsi = Str ''11'', nm_propinsi = Str ''Aceh'', kd_dati2 = Str ''01'',
             nm_dati2 = Str ''SIMEULUE'', kd_kecamatan = Undefined, nm_kecamatan = Undefined,
             kd_kelurahan = Undefined, nm_kelurahan = Undefined\<rparr>, GObject 8)]
     (0, [\<lparr>kode_wilayah_kemendagri = ''11.01'', nama_wilayah_kemendagri = Some ''SIMEULUE'',
               level = 2, geometry = Some 8, created_at = 10, updated_at = 11\<rparr>])
   = (Inr 2, [\<lparr>kode_wilayah_kemendagri = ''11.01'', nama_wilayah_kemendagri = Some ''SIMEULUE'',
               level = 2, geometry = Some 8, created_at = 10, updated_at = 21\<rparr>])
   \<and> ingest \<lparr>DB_PROVIDER = SUPABASE, supabaseAdmin = True, unavailable = (\<lambda>c. False)\<rparr>
     Some (\<lambda>n. 30 + n) 1
     [(Some \<lparr>kd_propinsi = Str ''11'', nm_propinsi = Str ''Aceh'', kd_dati2 = Undefined,
             nm_dati2 = Undefined, kd_kecamatan = Undefined, nm_kecamatan = Undefined,
             kd_kelurahan = Undefined, nm_kelurahan = Undefined\<rparr>, GObject (3::nat))]
     (0, [\<lparr>kode_wilayah_kemendagri = ''11.01'', nama_wilayah_kemendagri = Some ''SIMEULUE'',
               level = 2, geometry = Some 8, created_at = 10, updated_at = 21\<rparr>])
   = (Inr 1, [\<lparr>kode_wilayah_kemendagri = ''11.01'', nama_wilayah_kemendagri = Some ''SIMEULUE'',
               level = 2, geometry = Some 8, created_at = 10, updated_at = 21\<rparr>,
              \<lparr>kode_wilayah_kemendagri = ''11'', nama_wilayah_kemendagri = Some ''Aceh'',
               level = 1, geometry = Some 3, created_at = 30, updated_at = 30\<rparr>])"
  using ingest_idempotent [of "[] :: nat option store"
      "\<lparr>DB_PROVIDER = POSTGRES, supabaseAdmin = False, unavailable = (\<lambda>c. False)\<rparr>"
      Some "\<lambda>n. 10 + n" 2
      "[(Some \<lparr>kd_propinsi = Str ''11'', nm_propinsi = Str ''Aceh'', kd_dati2 = Str ''01'',
             nm_dati2 = Str ''Simeulue'', kd_kecamatan = Undefined, nm_kecamatan = Undefined,
             kd_kelurahan = Undefined, nm_kelurahan = Undefined\<rparr>, GObject (7::nat)),
      (Some \<lparr>kd_propinsi = Str ''11'', nm_propinsi = Str ''Aceh'', kd_dati2 = Str ''01'',
             nm_dati2 = Str ''SIMEULUE'', kd_kecamatan = Undefined, nm_kecamatan = Undefined,
             kd_kelurahan = Undefined, nm_kelurahan = Undefined\<rparr>, GObject 8)]"
      "Inr 2"
      "[\<lparr>kode_wilayah_kemendagri = ''11.01'', nama_wilayah_kemendagri = Some ''SIMEULUE'',
               level = 2, geometry = Some 8, created_at = 10, updated_at = 11\<rparr>]"
      "\<lambda>n. 20 + n" "Inr 2"
      "[\<lparr>kode_wilayah_kemendagri = ''11.01'', nama_wilayah_kemendagri = Some ''SIMEULUE'',
               level = 2, geometry = Some 8, created_at = 10, updated_at = 21\<rparr>]"]
  by (simp add: transformProperties_def upsert_eval)

section \<open>Handlers\<close>

lemma io_simps:
  "await (tr, Inl x) f = (tr, Inl x)"
  "await (tr, Inr a) f = (tr @ fst (f a), snd (f a))"
  "respond (tr, Inl x) = (tr, Status500)"
  "respond (tr, Inr a) = (tr, Json a)"
  "return_io a = ([], Inr a)"
  by (simp_all add: await_def respond_def return_io_def split: prod.splits)

text \<open>
  C9 (amended). A non-empty code whose length is none of 2, 5, 8 and below 13 is answered
  with the result object whose four slots are null, and no store request is issued, in
  both servers.
\<close>

theorem geojson_unclassified_length:
  assumes "code \<noteq> []" and "length code \<noteq> 2" and "length code \<noteq> 5" and "length code \<noteq> 8"
    and "length code < 13"
  shows "api_db_geojson e db (Some code) = ([], Json empty_bundle)
         \<and> api_db_geojson_direct e db (Some code) = ([], Json empty_bundle)"
  using assms by (simp add: api_db_geojson_def api_db_geojson_direct_def io_simps)

theorem geojson_unclassified_length_witness:
  "api_db_geojson \<lparr>DB_PROVIDER = POSTGRES, supabaseAdmin = False, unavailable = (\<lambda>c. False)\<rparr>
     ([] :: nat store) (Some ''11.1.05'') = ([], Json empty_bundle)
   \<and> api_db_geojson_direct \<lparr>DB_PROVIDER = POSTGRES, supabaseAdmin = False, unavailable = (\<lambda>c. False)\<rparr>
     ([] :: nat store) (Some ''11.1.05'') = ([], Json empty_bundle)"
  using geojson_unclassified_length [of "''11.1.05''"
      "\<lparr>DB_PROVIDER = POSTGRES, supabaseAdmin = False, unavailable = (\<lambda>c. False)\<rparr>" "[] :: nat store"]
  by simp

text \<open>The empty code has such a length, and is answered with status 400.\<close>

theorem geojson_empty_code_counterexample:
  "length ('''' :: string) \<noteq> 2 \<and> length ('''' :: string) \<noteq> 5 \<and> length ('''' :: string) \<noteq> 8
   \<and> length ('''' :: string) < 13
   \<and> api_db_geojson \<lparr>DB_PROVIDER = POSTGRES, supabaseAdmin = False, unavailable = (\<lambda>c. False)\<rparr>
         ([] :: nat store) (Some '''') = ([], Status400)"
  by (simp add: api_db_geojson_def)

text \<open>
  C10. A search whose query is missing or shorter than three characters is answered with
  the empty list and issues no store request, in both servers.
\<close>

theorem search_short_query:
  assumes "q = None \<or> (\<exists>s. q = Some s \<and> length s < 3)"
  shows "api_search e db q = ([], Json []) \<and> api_search_direct e db q = ([], Json [])"
  using assms by (auto simp: api_search_def api_search_direct_def)

theorem search_short_query_witness:
  "api_search \<lparr>DB_PROVIDER = SUPABASE, supabaseAdmin = True, unavailable = (\<lambda>c. False),
       toLowerCase = ascii_lower, sql_lower = ascii_lower\<rparr>
     [\<lparr>kode_wilayah_kemendagri = ''11'', nama_wilayah_kemendagri = Some ''Aceh'', level = 1,
       geometry = (0::nat), created_at = 0, updated_at = 0\<rparr>] (Some ''ac'') = ([], Json [])
   \<and> api_search_direct \<lparr>DB_PROVIDER = SUPABASE, supabaseAdmin = True, unavailable = (\<lambda>c. False),
       toLowerCase = ascii_lower, sql_lower = ascii_lower\<rparr>
     [\<lparr>kode_wilayah_kemendagri = ''11'', nama_wilayah_kemendagri = Some ''Aceh'', level = 1,
       geometry = (0::nat), created_at = 0, updated_at = 0\<rparr>] (Some ''ac'') = ([], Json [])"
  using search_short_query [of "Some ''ac''"
      "\<lparr>DB_PROVIDER = SUPABASE, supabaseAdmin = True, unavailable = (\<lambda>c. False),
        toLowerCase = ascii_lower, sql_lower = ascii_lower\<rparr>"
      "[\<lparr>kode_wilayah_kemendagri = ''11'', nama_wilayah_kemendagri = Some ''Aceh'', level = 1,
       geometry = (0::nat), created_at = 0, updated_at = 0\<rparr>]"]
  by simp

text \<open>A query of three characters is lowered and looked up.\<close>

lemma search_long_query_reaches_store:
  "api_search \<lparr>DB_PROVIDER = POSTGRES, supabaseAdmin = False, unavailable = (\<lambda>c. False),
       toLowerCase = ascii_lower, sql_lower = ascii_lower\<rparr>
     [\<lparr>kode_wilayah_kemendagri = ''11'', nama_wilayah_kemendagri = Some ''Aceh'', level = 1,
       geometry = (0::nat), created_at = 0, updated_at = 0\<rparr>] (Some ''ACE'')
   = ([Query_search ''%ace%''], Json [\<lparr>hit_id = ''11'', hit_name = ''Aceh'', hit_level = 1\<rparr>])"
  by (simp add: api_search_def respond_def search_lower_like_def select_search_def ascii_lower_def
      ascii_lower_char_def List.map_filter_def)

section \<open>Failing fetches\<close>



lemma select_level_like_rpc:
  "select_level_like db lvl (c @ ''%'') = get_wilayah_by_level db lvl (Some c)"
  by (simp add: select_level_like_def get_wilayah_by_level_def)

lemmas eval_defs = api_db_geojson_def api_db_geojson_direct_def fetchGeoData_def pool_query_eq_def
  pool_query_like_def io_simps slot_def empty_bundle_def toFeatureCollection_def
  select_level_like_def select_level_eq_def get_wilayah_by_level_def select_geo_def




section \<open>The two providers\<close>




lemma select_geo_perm: "mset db = mset db' \<Longrightarrow> select_geo cond db = select_geo cond db'"
  by (simp add: select_geo_def)





section \<open>Matching of identifiers in the map query\<close>

text \<open>
  C2. The provider-aware server asked for province 11, on a table that also holds the
  level-2 region 110.01: both providers return 110.01 among the children, where the
  direct-only server, matching \<open>11.%\<close>, returns 11.01 alone. The last equation is the
  gateway function asked for level 2 under 11.1: it returns 11.10.
\<close>

theorem children_fetch_ignores_separator:
  "api_db_geojson \<lparr>DB_PROVIDER = POSTGRES, supabaseAdmin = False, unavailable = (\<lambda>c. False)\<rparr>
     [\<lparr>kode_wilayah_kemendagri = ''11'', nama_wilayah_kemendagri = Some ''Aceh'', level = 1,
       geometry = (1::nat), created_at = 0, updated_at = 0\<rparr>,
      \<lparr>kode_wilayah_kemendagri = ''11.01'', nama_wilayah_kemendagri = Some ''Simeulue'', level = 2,
       geometry = 2, created_at = 0, updated_at = 0\<rparr>,
      \<lparr>kode_wilayah_kemendagri = ''110.01'', nama_wilayah_kemendagri = Some ''Elsewhere'', level = 2,
       geometry = 3, created_at = 0, updated_at = 0\<rparr>]
     (Some ''11'')
   = ([Query_level_like 1 ''11%'', Query_level_like 2 ''11%''],
      Json \<lparr>provinsi = Some {#\<lparr>feat_name = Some ''Aceh'', feat_id = ''11'', feat_geometry = 1\<rparr>#},
            kabupaten = Some {#\<lparr>feat_name = Some ''Simeulue'', feat_id = ''11.01'', feat_geometry = 2\<rparr>,
                              \<lparr>feat_name = Some ''Elsewhere'', feat_id = ''110.01'', feat_geometry = 3\<rparr>#},
            kecamatan = None, kelurahan = None\<rparr>)
   \<and> api_db_geojson \<lparr>DB_PROVIDER = SUPABASE, supabaseAdmin = True, unavailable = (\<lambda>c. False)\<rparr>
     [\<lparr>kode_wilayah_kemendagri = ''11'', nama_wilayah_kemendagri = Some ''Aceh'', level = 1,
       geometry = (1::nat), created_at = 0, updated_at = 0\<rparr>,
      \<lparr>kode_wilayah_kemendagri = ''11.01'', nama_wilayah_kemendagri = Some ''Simeulue'', level = 2,
       geometry = 2, created_at = 0, updated_at = 0\<rparr>,
      \<lparr>kode_wilayah_kemendagri = ''110.01'', nama_wilayah_kemendagri = Some ''Elsewhere'', level = 2,
       geometry = 3, created_at = 0, updated_at = 0\<rparr>]
     (Some ''11'')
   = ([Rpc_get_wilayah_by_level 1 ''11'', Rpc_get_wilayah_by_level 2 ''11''],
      Json \<lparr>provinsi = Some {#\<lparr>feat_name = Some ''Aceh'', feat_id = ''11'', feat_geometry = 1\<rparr>#},
            kabupaten = Some {#\<lparr>feat_name = Some ''Simeulue'', feat_id = ''11.01'', feat_geometry = 2\<rparr>,
                              \<lparr>feat_name = Some ''Elsewhere'', feat_id = ''110.01'', feat_geometry = 3\<rparr>#},
            kecamatan = None, kelurahan = None\<rparr>)
   \<and> api_db_geojson_direct \<lparr>DB_PROVIDER = POSTGRES, supabaseAdmin = False, unavailable = (\<lambda>c. False)\<rparr>
     [\<lparr>kode_wilayah_kemendagri = ''11'', nama_wilayah_kemendagri = Some ''Aceh'', level = 1,
       geometry = (1::nat), created_at = 0, updated_at = 0\<rparr>,
      \<lparr>kode_wilayah_kemendagri = ''11.01'', nama_wilayah_kemendagri = Some ''Simeulue'', level = 2,
       geometry = 2, created_at = 0, updated_at = 0\<rparr>,
      \<lparr>kode_wilayah_kemendagri = ''110.01'', nama_wilayah_kemendagri = Some ''Elsewhere'', level = 2,
       geometry = 3, created_at = 0, updated_at = 0\<rparr>]
     (Some ''11'')
   = ([Query_level_eq 1 ''11'', Query_level_like 2 ''11.%''],
      Json \<lparr>provinsi = Some {#\<lparr>feat_name = Some ''Aceh'', feat_id = ''11'', feat_geometry = 1\<rparr>#},
            kabupaten = Some {#\<lparr>feat_name = Some ''Simeulue'', feat_id = ''11.01'', feat_geometry = 2\<rparr>#},
            kecamatan = None, kelurahan = None\<rparr>)
   \<and> get_wilayah_by_level
       [\<lparr>kode_wilayah_kemendagri = ''11.10'', nama_wilayah_kemendagri = Some ''Lhokseumawe'',
         level = 2, geometry = (4::nat), created_at = 0, updated_at = 0\<rparr>] 2 (Some ''11.1'')
     = {#\<lparr>row_id = ''11.10'', row_name = Some ''Lhokseumawe'', row_geom = 4\<rparr>#}"
  by (simp add: eval_defs)

text \<open>
  C3. The provider-aware server asked for district 11.01.05, on a table that also holds the
  level-2 region 11.011: the parent context is fetched by the pattern \<open>11.01%\<close> and
  holds both 11.01 and 11.011, where the direct-only server, comparing with \<open>=\<close>,
  returns 11.01 alone.
\<close>

theorem context_fetch_is_prefix_match:
  "api_db_geojson \<lparr>DB_PROVIDER = POSTGRES, supabaseAdmin = False, unavailable = (\<lambda>c. False)\<rparr>
     [\<lparr>kode_wilayah_kemendagri = ''11.01'', nama_wilayah_kemendagri = Some ''Simeulue'', level = 2,
       geometry = (2::nat), created_at = 0, updated_at = 0\<rparr>,
      \<lparr>kode_wilayah_kemendagri = ''11.011'', nama_wilayah_kemendagri = Some ''Elsewhere'', level = 2,
       geometry = 3, created_at = 0, updated_at = 0\<rparr>,
      \<lparr>kode_wilayah_kemendagri = ''11.01.05'', nama_wilayah_kemendagri = Some ''Teupah Barat'',
       level = 3, geometry = 5, created_at = 0, updated_at = 0\<rparr>]
     (Some ''11.01.05'')
   = ([Query_level_like 2 ''11.01%'', Query_level_like 3 ''11.01.05%'',
       Query_level_like 4 ''11.01.05%''],
      Json \<lparr>provinsi = None,
            kabupaten = Some {#\<lparr>feat_name = Some ''Simeulue'', feat_id = ''11.01'', feat_geometry = 2\<rparr>,
                              \<lparr>feat_name = Some ''Elsewhere'', feat_id = ''11.011'', feat_geometry = 3\<rparr>#},
            kecamatan = Some {#\<lparr>feat_name = Some ''Teupah Barat'', feat_id = ''11.01.05'',
                               feat_geometry = 5\<rparr>#},
            kelurahan = None\<rparr>)
   \<and> api_db_geojson_direct \<lparr>DB_PROVIDER = POSTGRES, supabaseAdmin = False, unavailable = (\<lambda>c. False)\<rparr>
     [\<lparr>kode_wilayah_kemendagri = ''11.01'', nama_wilayah_kemendagri = Some ''Simeulue'', level = 2,
       geometry = (2::nat), created_at = 0, updated_at = 0\<rparr>,
      \<lparr>kode_wilayah_kemendagri = ''11.011'', nama_wilayah_kemendagri = Some ''Elsewhere'', level = 2,
       geometry = 3, created_at = 0, updated_at = 0\<rparr>,
      \<lparr>kode_wilayah_kemendagri = ''11.01.05'', nama_wilayah_kemendagri = Some ''Teupah Barat'',
       level = 3, geometry = 5, created_at = 0, updated_at = 0\<rparr>]
     (Some ''11.01.05'')
   = ([Query_level_eq 2 ''11.01'', Query_level_eq 3 ''11.01.05'', Query_level_like 4 ''11.01.05.%''],
      Json \<lparr>provinsi = None,
            kabupaten = Some {#\<lparr>feat_name = Some ''Simeulue'', feat_id = ''11.01'', feat_geometry = 2\<rparr>#},
            kecamatan = Some {#\<lparr>feat_name = Some ''Teupah Barat'', feat_id = ''11.01.05'',
                               feat_geometry = 5\<rparr>#},
            kelurahan = None\<rparr>)"
  by (simp add: eval_defs)

text \<open>
  The store requests issued for the four depths when every request is answered: the levels
  and the codes they are keyed on are the same in both servers; the comparison differs.
\<close>

lemma fetch_plan_of_the_four_depths:
  assumes "\<forall>c. \<not> unavailable e c"
  shows "DB_PROVIDER e = POSTGRES \<Longrightarrow>
           fst (api_db_geojson e db (Some ''11''))
             = [Query_level_like 1 ''11%'', Query_level_like 2 ''11%'']
         \<and> fst (api_db_geojson e db (Some ''11.01''))
             = [Query_level_like 2 ''11.01%'', Query_level_like 3 ''11.01%'',
                Query_level_like 4 ''11.01%'']
         \<and> fst (api_db_geojson e db (Some ''11.01.05''))
             = [Query_level_like 2 ''11.01%'', Query_level_like 3 ''11.01.05%'',
                Query_level_like 4 ''11.01.05%'']
         \<and> fst (api_db_geojson e db (Some ''11.01.05.2003''))
             = [Query_level_like 3 ''11.01.05%'', Query_level_like 4 ''11.01.05.2003%'']"
    and "DB_PROVIDER e = SUPABASE \<Longrightarrow> supabaseAdmin e \<Longrightarrow>
           fst (api_db_geojson e db (Some ''11''))
             = [Rpc_get_wilayah_by_level 1 ''11'', Rpc_get_wilayah_by_level 2 ''11'']
         \<and> fst (api_db_geojson e db (Some ''11.01''))
             = [Rpc_get_wilayah_by_level 2 ''11.01'', Rpc_get_wilayah_by_level 3 ''11.01'',
                Rpc_get_wilayah_by_level 4 ''11.01'']
         \<and> fst (api_db_geojson e db (Some ''11.01.05''))
             = [Rpc_get_wilayah_by_level 2 ''11.01'', Rpc_get_wilayah_by_level 3 ''11.01.05'',
                Rpc_get_wilayah_by_level 4 ''11.01.05'']
         \<and> fst (api_db_geojson e db (Some ''11.01.05.2003''))
             = [Rpc_get_wilayah_by_level 3 ''11.01.05'', Rpc_get_wilayah_by_level 4 ''11.01.05.2003'']"
    and "fst (api_db_geojson_direct e db (Some ''11''))
             = [Query_level_eq 1 ''11'', Query_level_like 2 ''11.%'']
         \<and> fst (api_db_geojson_direct e db (Some ''11.01''))
             = [Query_level_eq 2 ''11.01'', Query_level_like 3 ''11.01.%'',
                Query_level_like 4 ''11.01.%'']
         \<and> fst (api_db_geojson_direct e db (Some ''11.01.05''))
             = [Query_level_eq 2 ''11.01'', Query_level_eq 3 ''11.01.05'',
                Query_level_like 4 ''11.01.05.%'']
         \<and> fst (api_db_geojson_direct e db (Some ''11.01.05.2003''))
             = [Query_level_eq 3 ''11.01.05'', Query_level_eq 4 ''11.01.05.2003'']"
  using assms
  by (simp_all add: api_db_geojson_def api_db_geojson_direct_def fetchGeoData_def
      pool_query_eq_def pool_query_like_def io_simps)

end
